theory Spec2Isabelle
  imports Complex_Main "HOL-Library.Word"
begin

section \<open>Attribute values of the plugin framework\<close>

text \<open>
  The resource models of the provider hold the framework's attribute values
  (\<^verbatim>\<open>types.String\<close>, \<^verbatim>\<open>types.Bool\<close>, \<^verbatim>\<open>types.Int64\<close>, \<^verbatim>\<open>types.Float64\<close>,
  \<^verbatim>\<open>types.List\<close>, \<^verbatim>\<open>types.Map\<close>, \<^verbatim>\<open>types.Object\<close>). Each is null, unknown or known.
  The framework is a dependency of the repository; its accessors are written here as the
  library defines them: \<^verbatim>\<open>ValueString\<close> is the empty string unless the value is known,
  \<^verbatim>\<open>ValueStringPointer\<close> is nil only for null, and so on for the other kinds.
  Go's \<^verbatim>\<open>int64\<close> is a 64-bit word. Go's \<^verbatim>\<open>float64\<close> is read as a real number: the
  provider only compares floats with zero and copies them, and the remote JSON carries
  neither NaN nor infinities.
\<close>

type_synonym int64 = "64 word"
type_synonym float64 = real

datatype tfString = StringNull | StringUnknown | StringValue string
datatype tfBool = BoolNull | BoolUnknown | BoolValue bool
datatype tfInt64 = Int64Null | Int64Unknown | Int64Value int64
datatype tfFloat64 = Float64Null | Float64Unknown | Float64Value float64

fun String_IsNull :: "tfString \<Rightarrow> bool" where
  "String_IsNull StringNull = True"
| "String_IsNull _ = False"

fun String_IsUnknown :: "tfString \<Rightarrow> bool" where
  "String_IsUnknown StringUnknown = True"
| "String_IsUnknown _ = False"

fun ValueString :: "tfString \<Rightarrow> string" where
  "ValueString (StringValue s) = s"
| "ValueString _ = []"

fun ValueStringPointer :: "tfString \<Rightarrow> string option" where
  "ValueStringPointer StringNull = None"
| "ValueStringPointer StringUnknown = Some []"
| "ValueStringPointer (StringValue s) = Some s"

definition String_Equal :: "tfString \<Rightarrow> tfString \<Rightarrow> bool" where
  "String_Equal a b = (a = b)"

fun Bool_IsUnknown :: "tfBool \<Rightarrow> bool" where
  "Bool_IsUnknown BoolUnknown = True"
| "Bool_IsUnknown _ = False"

fun ValueBool :: "tfBool \<Rightarrow> bool" where
  "ValueBool (BoolValue b) = b"
| "ValueBool _ = False"

fun ValueBoolPointer :: "tfBool \<Rightarrow> bool option" where
  "ValueBoolPointer BoolNull = None"
| "ValueBoolPointer BoolUnknown = Some False"
| "ValueBoolPointer (BoolValue b) = Some b"

definition Bool_Equal :: "tfBool \<Rightarrow> tfBool \<Rightarrow> bool" where
  "Bool_Equal a b = (a = b)"

fun Int64_IsUnknown :: "tfInt64 \<Rightarrow> bool" where
  "Int64_IsUnknown Int64Unknown = True"
| "Int64_IsUnknown _ = False"

fun ValueInt64Pointer :: "tfInt64 \<Rightarrow> int64 option" where
  "ValueInt64Pointer Int64Null = None"
| "ValueInt64Pointer Int64Unknown = Some 0"
| "ValueInt64Pointer (Int64Value n) = Some n"

fun Float64_IsUnknown :: "tfFloat64 \<Rightarrow> bool" where
  "Float64_IsUnknown Float64Unknown = True"
| "Float64_IsUnknown _ = False"

fun ValueFloat64Pointer :: "tfFloat64 \<Rightarrow> float64 option" where
  "ValueFloat64Pointer Float64Null = None"
| "ValueFloat64Pointer Float64Unknown = Some 0"
| "ValueFloat64Pointer (Float64Value x) = Some x"

text \<open>
  Element types. An object type lists its attribute types; the two object types of the
  provider write theirs in key order.
\<close>

datatype attr_type = StringType | BoolType | Int64Type | Float64Type
  | ObjectType "(string \<times> attr_type) list"

text \<open>
  A list value carries its element type. Go's zero value \<^verbatim>\<open>types.List{}\<close> has none and is
  in the null state: \<open>ListZero\<close>. The same holds for maps. A Go map is written as an
  association list, its keys distinct; a loop over the map visits the list in order.
\<close>

datatype 'a tfList = ListZero | ListNull attr_type | ListUnknown attr_type
  | ListValue attr_type "'a list"

datatype 'a tfMap = MapZero | MapNull attr_type | MapUnknown attr_type
  | MapValue attr_type "(string \<times> 'a) list"

datatype 'a tfObject = ObjectNull | ObjectUnknown | ObjectValue 'a

fun List_IsNull :: "'a tfList \<Rightarrow> bool" where
  "List_IsNull ListZero = True"
| "List_IsNull (ListNull t) = True"
| "List_IsNull _ = False"

fun List_IsUnknown :: "'a tfList \<Rightarrow> bool" where
  "List_IsUnknown (ListUnknown t) = True"
| "List_IsUnknown _ = False"

fun List_Elements :: "'a tfList \<Rightarrow> 'a list" where
  "List_Elements (ListValue t xs) = xs"
| "List_Elements _ = []"

text \<open>
  \<^verbatim>\<open>ListValue.Equal\<close>: a list without element type equals nothing, itself included; then
  the element types, the states and, for known lists, the elements are compared.
\<close>

fun List_Equal :: "'a tfList \<Rightarrow> 'a tfList \<Rightarrow> bool" where
  "List_Equal ListZero b = False"
| "List_Equal a ListZero = False"
| "List_Equal (ListNull t) (ListNull u) = (t = u)"
| "List_Equal (ListUnknown t) (ListUnknown u) = (t = u)"
| "List_Equal (ListValue t xs) (ListValue u ys) = (t = u \<and> xs = ys)"
| "List_Equal a b = False"

fun Map_IsNull :: "'a tfMap \<Rightarrow> bool" where
  "Map_IsNull MapZero = True"
| "Map_IsNull (MapNull t) = True"
| "Map_IsNull _ = False"

fun Map_IsUnknown :: "'a tfMap \<Rightarrow> bool" where
  "Map_IsUnknown (MapUnknown t) = True"
| "Map_IsUnknown _ = False"

fun Map_Elements :: "'a tfMap \<Rightarrow> (string \<times> 'a) list" where
  "Map_Elements (MapValue t xs) = xs"
| "Map_Elements _ = []"

text \<open>
  \<^verbatim>\<open>MapValue.Equal\<close>: as for lists; two known maps are equal when they have the same
  number of entries and every entry of the first is an entry of the second.
\<close>

definition entries_Equal :: "(string \<times> 'a) list \<Rightarrow> (string \<times> 'a) list \<Rightarrow> bool" where
  "entries_Equal xs ys =
     (length xs = length ys \<and> list_all (\<lambda>(k, v). map_of ys k = Some v) xs)"

fun Map_Equal :: "'a tfMap \<Rightarrow> 'a tfMap \<Rightarrow> bool" where
  "Map_Equal MapZero b = False"
| "Map_Equal a MapZero = False"
| "Map_Equal (MapNull t) (MapNull u) = (t = u)"
| "Map_Equal (MapUnknown t) (MapUnknown u) = (t = u)"
| "Map_Equal (MapValue t xs) (MapValue u ys) = (t = u \<and> entries_Equal xs ys)"
| "Map_Equal a b = False"

text \<open>
  \<^verbatim>\<open>ElementsAs\<close> into a Go map: the entries of a known map; no entry for a null map, nor
  for an unknown one, where the call reports an error and leaves the target as it was. On
  a map without element type the call dereferences the nil type and panics: the result
  \<open>None\<close>. The elements of a map of objects are written as the model struct the provider
  decodes them into; an element that is itself a null or unknown object is not modelled.
\<close>

fun Map_ElementsAs :: "'a tfMap \<Rightarrow> (string \<times> 'a) list option" where
  "Map_ElementsAs MapZero = None"
| "Map_ElementsAs (MapNull t) = Some []"
| "Map_ElementsAs (MapUnknown t) = Some []"
| "Map_ElementsAs (MapValue t xs) = Some xs"

fun Object_IsNull :: "'a tfObject \<Rightarrow> bool" where
  "Object_IsNull ObjectNull = True"
| "Object_IsNull _ = False"

fun Object_IsUnknown :: "'a tfObject \<Rightarrow> bool" where
  "Object_IsUnknown ObjectUnknown = True"
| "Object_IsUnknown _ = False"

text \<open>
  \<^verbatim>\<open>ObjectValue.Equal\<close> compares the states first and looks at attribute types and
  attributes only when both objects are known. The objects the provider compares are built
  from one model struct, so an object value keeps its attributes and no attribute types.
\<close>

definition Object_Equal :: "'a tfObject \<Rightarrow> 'a tfObject \<Rightarrow> bool" where
  "Object_Equal a b = (a = b)"

section \<open>Diagnostics\<close>

text \<open>
  \<^verbatim>\<open>diag.Diagnostics\<close> is a Go slice of diagnostics. \<^verbatim>\<open>Append\<close> skips a diagnostic the
  slice already holds; \<^verbatim>\<open>AddError\<close> appends an error diagnostic.
\<close>

datatype Diagnostic =
    ErrorDiagnostic string string
  | WarningDiagnostic string string
  | AttributeErrorDiagnostic string string string
  | AttributeWarningDiagnostic string string string

type_synonym Diagnostics = "Diagnostic list"

fun is_error :: "Diagnostic \<Rightarrow> bool" where
  "is_error (ErrorDiagnostic s d) = True"
| "is_error (AttributeErrorDiagnostic p s d) = True"
| "is_error _ = False"

definition HasError :: "Diagnostics \<Rightarrow> bool" where
  "HasError diags = list_ex is_error diags"

fun Append :: "Diagnostics \<Rightarrow> Diagnostics \<Rightarrow> Diagnostics" where
  "Append diags [] = diags"
| "Append diags (d # ds) = Append (if d \<in> set diags then diags else diags @ [d]) ds"

definition AddError :: "Diagnostics \<Rightarrow> string \<Rightarrow> string \<Rightarrow> Diagnostics" where
  "AddError diags summary detail = Append diags [ErrorDiagnostic summary detail]"

definition AddAttributeError :: "Diagnostics \<Rightarrow> string \<Rightarrow> string \<Rightarrow> string \<Rightarrow> Diagnostics" where
  "AddAttributeError diags path summary detail =
     Append diags [AttributeErrorDiagnostic path summary detail]"

section \<open>Null/empty normalization helpers\<close>

definition Float64NullIfEmpty :: "float64 \<Rightarrow> tfFloat64" where
  "Float64NullIfEmpty input = (if input = 0 then Float64Null else Float64Value input)"

definition Int64NullIfEmpty :: "int64 \<Rightarrow> tfInt64" where
  "Int64NullIfEmpty input = (if input = 0 then Int64Null else Int64Value input)"

definition StringNullIfEmpty :: "string \<Rightarrow> tfString" where
  "StringNullIfEmpty input = (if input = [] then StringNull else StringValue input)"

definition ListValueNullIfEmpty :: "'a tfList \<Rightarrow> attr_type \<Rightarrow> 'a tfList" where
  "ListValueNullIfEmpty input elementType =
     (if List_IsNull input \<or> length (List_Elements input) = 0 then ListNull elementType
      else input)"

definition MapValueNullIfEmpty :: "'a tfMap \<Rightarrow> attr_type \<Rightarrow> 'a tfMap" where
  "MapValueNullIfEmpty input elementType =
     (if Map_IsNull input \<or> length (Map_Elements input) = 0 then MapNull elementType
      else input)"

definition EmptyStringIfNull :: "tfString \<Rightarrow> string option" where
  "EmptyStringIfNull s = (if String_IsNull s then Some [] else ValueStringPointer s)"

text \<open>
  \<^verbatim>\<open>convertListToStringPtrs\<close>: nil for a null or unknown list; otherwise one pointer per
  element, nil for a null element. Appending nothing leaves the Go slice nil.
\<close>

fun String_ptr :: "tfString \<Rightarrow> string option" where
  "String_ptr StringNull = None"
| "String_ptr s = Some (ValueString s)"

definition convertListToStringPtrs :: "tfString tfList \<Rightarrow> string option list option" where
  "convertListToStringPtrs tflist =
     (if List_IsUnknown tflist \<or> List_IsNull tflist then None
      else (case map String_ptr (List_Elements tflist) of [] \<Rightarrow> None | ps \<Rightarrow> Some ps))"

section \<open>Typed conversions of the framework\<close>

text \<open>
  \<^verbatim>\<open>types.ListValueFrom\<close>, \<^verbatim>\<open>types.MapValueFrom\<close> and \<^verbatim>\<open>types.ObjectValueFrom\<close> belong to
  the framework. Each returns a value and diagnostics; when the diagnostics hold an error
  the value is the unknown value of the requested type, otherwise it is the known value
  built from the Go data (the null value for a nil slice or a nil map). Which diagnostics a
  conversion reports is left to the framework: the record \<open>framework\<close> gives them for every
  input, together with the text \<^verbatim>\<open>%s\<close> prints for diagnostics.
\<close>

record ProductPackageDimensionsResourceModel =
  pdm_Height :: tfFloat64
  pdm_Length :: tfFloat64
  pdm_Weight :: tfFloat64
  pdm_Width :: tfFloat64

record CouponCurrencyOptionsModel =
  ccom_AmountOff :: tfInt64
  ccom_TopLevel :: tfBool

record framework =
  fw_list_diags :: "string list option \<Rightarrow> Diagnostics"
  fw_map_diags :: "(string \<times> string) list option \<Rightarrow> Diagnostics"
  fw_currency_diags :: "(string \<times> CouponCurrencyOptionsModel) list \<Rightarrow> Diagnostics"
  fw_dimensions_diags :: "ProductPackageDimensionsResourceModel \<Rightarrow> Diagnostics"
  fw_Sprintf :: "Diagnostics \<Rightarrow> string"

definition ProductPackageDimensionsResourceModel_Types :: "(string \<times> attr_type) list" where
  "ProductPackageDimensionsResourceModel_Types =
     [(''height'', Float64Type), (''length'', Float64Type), (''weight'', Float64Type),
      (''width'', Float64Type)]"

definition CouponCurrencyOptionsModel_Types :: "(string \<times> attr_type) list" where
  "CouponCurrencyOptionsModel_Types = [(''amount_off'', Int64Type), (''top_level'', BoolType)]"

definition ListValueFrom :: "framework \<Rightarrow> string list option \<Rightarrow> tfString tfList \<times> Diagnostics" where
  "ListValueFrom fw elements =
     (let diags = fw_list_diags fw elements
      in if HasError diags then (ListUnknown StringType, diags)
         else (case elements of
                 None \<Rightarrow> (ListNull StringType, diags)
               | Some xs \<Rightarrow> (ListValue StringType (map StringValue xs), diags)))"

definition MapValueFrom :: "framework \<Rightarrow> (string \<times> string) list option \<Rightarrow> tfString tfMap \<times> Diagnostics" where
  "MapValueFrom fw elements =
     (let diags = fw_map_diags fw elements
      in if HasError diags then (MapUnknown StringType, diags)
         else (case elements of
                 None \<Rightarrow> (MapNull StringType, diags)
               | Some xs \<Rightarrow> (MapValue StringType (map (\<lambda>(k, v). (k, StringValue v)) xs), diags)))"

definition MapValueFrom_currency ::
  "framework \<Rightarrow> (string \<times> CouponCurrencyOptionsModel) list
     \<Rightarrow> CouponCurrencyOptionsModel tfMap \<times> Diagnostics" where
  "MapValueFrom_currency fw elements =
     (let diags = fw_currency_diags fw elements
      in if HasError diags then (MapUnknown (ObjectType CouponCurrencyOptionsModel_Types), diags)
         else (MapValue (ObjectType CouponCurrencyOptionsModel_Types) elements, diags))"

definition ObjectValueFrom ::
  "framework \<Rightarrow> ProductPackageDimensionsResourceModel
     \<Rightarrow> ProductPackageDimensionsResourceModel tfObject \<times> Diagnostics" where
  "ObjectValueFrom fw d =
     (let diags = fw_dimensions_diags fw d
      in if HasError diags then (ObjectUnknown, diags) else (ObjectValue d, diags))"

text \<open>The framework as it behaves on the provider's well-typed data: no diagnostics.\<close>

definition fw_ok :: framework where
  "fw_ok = \<lparr>fw_list_diags = (\<lambda>x. []), fw_map_diags = (\<lambda>x. []), fw_currency_diags = (\<lambda>x. []),
            fw_dimensions_diags = (\<lambda>x. []), fw_Sprintf = (\<lambda>d. [])\<rparr>"

section \<open>Webhook endpoint: model and populate\<close>

text \<open>
  The remote objects are the structs of the Stripe client; only the fields the provider
  reads are kept. A slice or a map that may be nil is an option.
\<close>

record WebhookEndpoint =
  we_ID :: string
  we_Secret :: string
  we_APIVersion :: string
  we_Application :: string
  we_Description :: string
  we_EnabledEvents :: "string list option"
  we_Metadata :: "(string \<times> string) list option"
  we_Status :: string
  we_URL :: string

record WebhookEndpointResourceModel =
  wem_Id :: tfString
  wem_APIVersion :: tfString
  wem_Application :: tfString
  wem_Description :: tfString
  wem_Disabled :: tfBool
  wem_EnabledEvents :: "tfString tfList"
  wem_Metadata :: "tfString tfMap"
  wem_Secret :: tfString
  wem_URL :: tfString

text \<open>
  \<^verbatim>\<open>populateModel\<close> receives the diagnostics by value: what it appends goes to its own
  copy of the slice. The model returns that copy beside the model, so that a caller can be
  seen to drop it.
\<close>

definition WebhookEndpointResource_populateModel ::
  "framework \<Rightarrow> WebhookEndpointResourceModel \<Rightarrow> WebhookEndpoint \<Rightarrow> Diagnostics
     \<Rightarrow> WebhookEndpointResourceModel \<times> Diagnostics" where
  "WebhookEndpointResource_populateModel fw model0 webhookEndpoint respDiag =
     (let model = model0\<lparr>wem_APIVersion := StringNullIfEmpty (we_APIVersion webhookEndpoint)\<rparr>;
          model = model\<lparr>wem_Application := StringNullIfEmpty (we_Application webhookEndpoint)\<rparr>;
          model = model\<lparr>wem_Description := StringNullIfEmpty (we_Description webhookEndpoint)\<rparr>;
          (enabledEvents, diags) = ListValueFrom fw (we_EnabledEvents webhookEndpoint)
      in if HasError diags
         then (model, AddError respDiag ''Conversion Error''
                 (''Error converting enabledEvents: '' @ fw_Sprintf fw diags))
         else
           (let model = model\<lparr>wem_EnabledEvents := enabledEvents\<rparr>;
                (metadata, diags) = MapValueFrom fw (we_Metadata webhookEndpoint)
            in if HasError diags
               then (model, AddError respDiag ''Conversion Error''
                       (''Error converting metadata: '' @ fw_Sprintf fw diags))
               else
                 (let model = model\<lparr>wem_Metadata := MapValueNullIfEmpty metadata StringType\<rparr>;
                      model = (if we_Status webhookEndpoint = ''disabled''
                               then model\<lparr>wem_Disabled := BoolValue True\<rparr>
                               else model\<lparr>wem_Disabled := BoolValue False\<rparr>);
                      model = model\<lparr>wem_URL := StringValue (we_URL webhookEndpoint)\<rparr>
                  in (model, respDiag))))"

section \<open>Product: model and populate\<close>

record ProductPackageDimensions =
  pd_Height :: float64
  pd_Length :: float64
  pd_Weight :: float64
  pd_Width :: float64

text \<open>
  \<open>p_DefaultPrice\<close> and \<open>p_TaxCode\<close> are pointers to expanded objects of which only the ID
  is read: \<open>None\<close> is nil. \<open>p_MarketingFeatures\<close> lists the features' names.
\<close>

record Product =
  p_ID :: string
  p_Active :: bool
  p_DefaultPrice :: "string option"
  p_Description :: string
  p_Images :: "string list option"
  p_MarketingFeatures :: "string list option"
  p_Metadata :: "(string \<times> string) list option"
  p_Name :: string
  p_PackageDimensions :: "ProductPackageDimensions option"
  p_Shippable :: bool
  p_StatementDescriptor :: string
  p_TaxCode :: "string option"
  p_UnitLabel :: string
  p_URL :: string

record ProductResourceModel =
  pm_Id :: tfString
  pm_Active :: tfBool
  pm_DefaultPrice :: tfString
  pm_Description :: tfString
  pm_Images :: "tfString tfList"
  pm_MarketingFeatures :: "tfString tfList"
  pm_Metadata :: "tfString tfMap"
  pm_Name :: tfString
  pm_PackageDimensions :: "ProductPackageDimensionsResourceModel tfObject"
  pm_Shippable :: tfBool
  pm_StatementDescriptor :: tfString
  pm_TaxCode :: tfString
  pm_UnitLabel :: tfString
  pm_URL :: tfString

definition dimensions_nonzero :: "ProductPackageDimensions option \<Rightarrow> bool" where
  "dimensions_nonzero pd =
     (case pd of None \<Rightarrow> False
      | Some d \<Rightarrow> pd_Height d \<noteq> 0 \<and> pd_Length d \<noteq> 0 \<and> pd_Weight d \<noteq> 0 \<and> pd_Width d \<noteq> 0)"

definition dimensions_model :: "ProductPackageDimensions \<Rightarrow> ProductPackageDimensionsResourceModel" where
  "dimensions_model d =
     \<lparr>pdm_Height = Float64Value (pd_Height d), pdm_Length = Float64Value (pd_Length d),
      pdm_Weight = Float64Value (pd_Weight d), pdm_Width = Float64Value (pd_Width d)\<rparr>"

definition ProductResource_populateModel ::
  "framework \<Rightarrow> ProductResourceModel \<Rightarrow> Product \<Rightarrow> Diagnostics
     \<Rightarrow> ProductResourceModel \<times> Diagnostics" where
  "ProductResource_populateModel fw model0 product respDiag0 =
     (let model = model0\<lparr>pm_Active := BoolValue (p_Active product)\<rparr>;
          model = (case p_DefaultPrice product of
                     Some pid \<Rightarrow> model\<lparr>pm_DefaultPrice := StringValue pid\<rparr>
                   | None \<Rightarrow> model);
          model = model\<lparr>pm_Description := StringNullIfEmpty (p_Description product)\<rparr>;
          (images, diags) = ListValueFrom fw (p_Images product);
          respDiag = (if HasError diags then Append respDiag0 diags else respDiag0);
          model = model\<lparr>pm_Images := ListValueNullIfEmpty images StringType\<rparr>;
          (model, respDiag) =
            (case p_MarketingFeatures product of
               Some marketingFeatures \<Rightarrow>
                 (let (m, diags) = ListValueFrom fw
                        (case marketingFeatures of [] \<Rightarrow> None | fs \<Rightarrow> Some fs)
                  in (model\<lparr>pm_MarketingFeatures := ListValueNullIfEmpty m StringType\<rparr>,
                      if HasError diags then Append respDiag diags else respDiag))
             | None \<Rightarrow> (model, respDiag));
          (metadata, diags) = MapValueFrom fw (p_Metadata product);
          respDiag = (if HasError diags then Append respDiag diags else respDiag);
          model = model\<lparr>pm_Metadata := MapValueNullIfEmpty metadata StringType\<rparr>;
          model = model\<lparr>pm_Name := StringValue (p_Name product)\<rparr>;
          (model, respDiag) =
            (if dimensions_nonzero (p_PackageDimensions product)
             then (let (p, diags) = ObjectValueFrom fw
                         (dimensions_model (the (p_PackageDimensions product)))
                   in (model\<lparr>pm_PackageDimensions := p\<rparr>,
                       if HasError diags then Append respDiag diags else respDiag))
             else (model\<lparr>pm_PackageDimensions := ObjectNull\<rparr>, respDiag));
          model = model\<lparr>pm_Shippable := BoolValue (p_Shippable product)\<rparr>;
          model = model\<lparr>pm_StatementDescriptor := StringNullIfEmpty (p_StatementDescriptor product)\<rparr>;
          model = (case p_TaxCode product of
                     Some tid \<Rightarrow> model\<lparr>pm_TaxCode := StringValue tid\<rparr>
                   | None \<Rightarrow> model);
          model = model\<lparr>pm_UnitLabel := StringNullIfEmpty (p_UnitLabel product)\<rparr>;
          model = model\<lparr>pm_URL := StringNullIfEmpty (p_URL product)\<rparr>
      in (model, respDiag))"

section \<open>Coupon: model and populate\<close>

record CouponCurrencyOptions =
  cco_AmountOff :: int64

text \<open>
  \<open>c_AppliesTo\<close> is a pointer to a struct holding the slice \<^verbatim>\<open>Products\<close>: the outer option
  is the pointer, the inner one the slice. \<open>c_CurrencyOptions\<close> is only ranged over, so a nil
  map is the empty list.
\<close>

record Coupon =
  c_ID :: string
  c_AppliesTo :: "string list option option"
  c_Currency :: string
  c_CurrencyOptions :: "(string \<times> CouponCurrencyOptions) list"
  c_Duration :: string
  c_DurationInMonths :: int64
  c_MaxRedemptions :: int64
  c_Metadata :: "(string \<times> string) list option"
  c_Name :: string
  c_PercentOff :: float64
  c_RedeemBy :: int64

record CouponResourceModel =
  cm_Id :: tfString
  cm_AppliesTo :: "tfString tfList"
  cm_CurrencyOptions :: "CouponCurrencyOptionsModel tfMap"
  cm_Duration :: tfString
  cm_DurationInMonths :: tfInt64
  cm_MaxRedemptions :: tfInt64
  cm_Metadata :: "tfString tfMap"
  cm_Name :: tfString
  cm_PercentOff :: tfFloat64
  cm_RedeemBy :: tfInt64

definition coupon_currency_model ::
  "string \<Rightarrow> string \<times> CouponCurrencyOptions \<Rightarrow> string \<times> CouponCurrencyOptionsModel" where
  "coupon_currency_model coupon_currency =
     (\<lambda>(currency, cco).
        (currency,
         \<lparr>ccom_AmountOff = Int64NullIfEmpty (cco_AmountOff cco),
          ccom_TopLevel = (if coupon_currency = currency then BoolValue True else BoolValue False)\<rparr>))"

definition CouponResource_populateModel ::
  "framework \<Rightarrow> CouponResourceModel \<Rightarrow> Coupon \<Rightarrow> Diagnostics
     \<Rightarrow> CouponResourceModel \<times> Diagnostics" where
  "CouponResource_populateModel fw model0 coupon respDiag0 =
     (let (model, respDiag) =
            (case c_AppliesTo coupon of
               Some (Some products) \<Rightarrow>
                 (let (appliesTo, diags) = ListValueFrom fw (Some products)
                  in (model0\<lparr>cm_AppliesTo := ListValueNullIfEmpty appliesTo StringType\<rparr>,
                      if HasError diags then Append respDiag0 diags else respDiag0))
             | _ \<Rightarrow> (model0\<lparr>cm_AppliesTo := ListNull StringType\<rparr>, respDiag0));
          currencyOptions = map (coupon_currency_model (c_Currency coupon)) (c_CurrencyOptions coupon);
          (t, diags) = MapValueFrom_currency fw currencyOptions;
          respDiag = (if HasError diags then Append respDiag diags else respDiag);
          model = model\<lparr>cm_CurrencyOptions :=
                    MapValueNullIfEmpty t (ObjectType CouponCurrencyOptionsModel_Types)\<rparr>;
          model = model\<lparr>cm_Duration := StringNullIfEmpty (c_Duration coupon)\<rparr>;
          model = model\<lparr>cm_DurationInMonths := Int64NullIfEmpty (c_DurationInMonths coupon)\<rparr>;
          model = model\<lparr>cm_MaxRedemptions := Int64NullIfEmpty (c_MaxRedemptions coupon)\<rparr>;
          (metadata, diags) = MapValueFrom fw (c_Metadata coupon);
          respDiag = (if HasError diags then Append respDiag diags else respDiag);
          model = model\<lparr>cm_Metadata := MapValueNullIfEmpty metadata StringType\<rparr>;
          model = model\<lparr>cm_Name := StringNullIfEmpty (c_Name coupon)\<rparr>;
          model = model\<lparr>cm_PercentOff := Float64NullIfEmpty (c_PercentOff coupon)\<rparr>;
          model = model\<lparr>cm_RedeemBy := Int64NullIfEmpty (c_RedeemBy coupon)\<rparr>
      in (model, respDiag))"

section \<open>Price: model and populate\<close>

text \<open>
  Of the price model only the attributes \<^verbatim>\<open>populateModel\<close> writes are kept. \<open>pr_Product\<close>
  is the pointer to the expanded product, of which the ID is read; the read of a nil
  pointer panics, which is the result \<open>None\<close>. \<^verbatim>\<open>types.List{}\<close> is \<open>ListZero\<close>.
\<close>

record Price =
  pr_ID :: string
  pr_Active :: bool
  pr_BillingScheme :: string
  pr_Currency :: string
  pr_LookupKey :: string
  pr_Nickname :: string
  pr_Product :: "string option"
  pr_TaxBehavior :: string
  pr_TiersMode :: string
  pr_UnitAmount :: int64
  pr_UnitAmountDecimal :: float64

record PriceResourceModel =
  prm_Id :: tfString
  prm_Active :: tfBool
  prm_BillingScheme :: tfString
  prm_Currency :: tfString
  prm_LookupKey :: tfString
  prm_Nickname :: tfString
  prm_Product :: tfString
  prm_TaxBehavior :: tfString
  prm_Tiers :: "unit tfList"
  prm_TiersMode :: tfString
  prm_UnitAmount :: tfInt64
  prm_UnitAmountDecimal :: tfFloat64

definition PriceResource_populateModel :: "PriceResourceModel \<Rightarrow> Price \<Rightarrow> PriceResourceModel option" where
  "PriceResource_populateModel model price =
     (case pr_Product price of
        None \<Rightarrow> None
      | Some product_id \<Rightarrow>
          Some (model\<lparr>prm_Active := BoolValue (pr_Active price),
                      prm_BillingScheme := StringValue (pr_BillingScheme price),
                      prm_Currency := StringValue (pr_Currency price),
                      prm_LookupKey := StringValue (pr_LookupKey price),
                      prm_Nickname := StringValue (pr_Nickname price),
                      prm_Product := StringValue product_id,
                      prm_TaxBehavior := StringValue (pr_TaxBehavior price),
                      prm_Tiers := ListZero,
                      prm_TiersMode := StringValue (pr_TiersMode price),
                      prm_UnitAmount := Int64Value (pr_UnitAmount price),
                      prm_UnitAmountDecimal := Float64Value (pr_UnitAmountDecimal price)\<rparr>))"

section \<open>Request parameters of the Stripe client\<close>

text \<open>
  A params struct holds pointers, slices and maps, nil until set: \<open>None\<close> is nil. The maps
  built for a request are partial functions. \<^verbatim>\<open>AddMetadata\<close> makes the map on first use.
\<close>

definition AddMetadata :: "(string \<rightharpoonup> string) option \<Rightarrow> string \<Rightarrow> string \<Rightarrow> (string \<rightharpoonup> string) option" where
  "AddMetadata metadata key v =
     Some ((case metadata of None \<Rightarrow> Map.empty | Some m \<Rightarrow> m)(key \<mapsto> v))"

text \<open>Reading a Go map that may be nil: a nil map has no entry.\<close>

definition entry :: "('k \<rightharpoonup> 'v) option \<Rightarrow> 'k \<Rightarrow> 'v option" where
  "entry m k = (case m of None \<Rightarrow> None | Some f \<Rightarrow> f k)"

record WebhookEndpointParams =
  wp_APIVersion :: "string option"
  wp_Description :: "string option"
  wp_Disabled :: "bool option"
  wp_EnabledEvents :: "string option list option"
  wp_Metadata :: "(string \<rightharpoonup> string) option"
  wp_URL :: "string option"

definition WebhookEndpointParams_zero :: WebhookEndpointParams where
  "WebhookEndpointParams_zero =
     \<lparr>wp_APIVersion = None, wp_Description = None, wp_Disabled = None, wp_EnabledEvents = None,
      wp_Metadata = None, wp_URL = None\<rparr>"

record ProductPackageDimensionsParams =
  pdp_Height :: "float64 option"
  pdp_Length :: "float64 option"
  pdp_Weight :: "float64 option"
  pdp_Width :: "float64 option"

record ProductMarketingFeatureParams =
  pmf_Name :: "string option"

record ProductParams =
  pp_ID :: "string option"
  pp_Active :: "bool option"
  pp_DefaultPrice :: "string option"
  pp_Description :: "string option"
  pp_Images :: "string option list option"
  pp_MarketingFeatures :: "ProductMarketingFeatureParams list option"
  pp_Metadata :: "(string \<rightharpoonup> string) option"
  pp_Name :: "string option"
  pp_PackageDimensions :: "ProductPackageDimensionsParams option"
  pp_Shippable :: "bool option"
  pp_StatementDescriptor :: "string option"
  pp_TaxCode :: "string option"
  pp_UnitLabel :: "string option"
  pp_URL :: "string option"

definition ProductParams_zero :: ProductParams where
  "ProductParams_zero =
     \<lparr>pp_ID = None, pp_Active = None, pp_DefaultPrice = None, pp_Description = None,
      pp_Images = None, pp_MarketingFeatures = None, pp_Metadata = None, pp_Name = None,
      pp_PackageDimensions = None, pp_Shippable = None, pp_StatementDescriptor = None,
      pp_TaxCode = None, pp_UnitLabel = None, pp_URL = None\<rparr>"

record CouponCurrencyOptionsParams =
  ccop_AmountOff :: "int64 option"

record CouponParams =
  cp_ID :: "string option"
  cp_AmountOff :: "int64 option"
  cp_AppliesTo :: "string option list option"
  cp_Currency :: "string option"
  cp_CurrencyOptions :: "(string \<rightharpoonup> CouponCurrencyOptionsParams) option"
  cp_Duration :: "string option"
  cp_DurationInMonths :: "int64 option"
  cp_MaxRedemptions :: "int64 option"
  cp_Metadata :: "(string \<rightharpoonup> string) option"
  cp_Name :: "string option"
  cp_PercentOff :: "float64 option"
  cp_RedeemBy :: "int64 option"
  cp_Expand :: "string list"

definition CouponParams_zero :: CouponParams where
  "CouponParams_zero =
     \<lparr>cp_ID = None, cp_AmountOff = None, cp_AppliesTo = None, cp_Currency = None,
      cp_CurrencyOptions = None, cp_Duration = None, cp_DurationInMonths = None,
      cp_MaxRedemptions = None, cp_Metadata = None, cp_Name = None, cp_PercentOff = None,
      cp_RedeemBy = None, cp_Expand = []\<rparr>"

definition AddExpand :: "CouponParams \<Rightarrow> string \<Rightarrow> CouponParams" where
  "AddExpand params f = params\<lparr>cp_Expand := cp_Expand params @ [f]\<rparr>"

text \<open>
  The metadata diff, the same two loops in the three resources: every entry of the plan is
  added with \<^verbatim>\<open>ValueString\<close> of its value, then every key of the state that the plan lacks
  is added with the empty string.
\<close>

definition add_plan_metadata ::
  "(string \<times> tfString) list \<Rightarrow> (string \<rightharpoonup> string) option \<Rightarrow> (string \<rightharpoonup> string) option" where
  "add_plan_metadata planMetadata metadata =
     fold (\<lambda>(k, v) md. AddMetadata md k (ValueString v)) planMetadata metadata"

definition clear_state_metadata ::
  "(string \<times> tfString) list \<Rightarrow> (string \<times> tfString) list \<Rightarrow> (string \<rightharpoonup> string) option
     \<Rightarrow> (string \<rightharpoonup> string) option" where
  "clear_state_metadata planMetadata stateMetadata metadata =
     fold (\<lambda>(k, v) md. if map_of planMetadata k = None then AddMetadata md k [] else md)
       stateMetadata metadata"

definition diff_metadata ::
  "tfString tfMap \<Rightarrow> tfString tfMap \<Rightarrow> (string \<rightharpoonup> string) option \<Rightarrow> (string \<rightharpoonup> string) option" where
  "diff_metadata state_md plan_md metadata =
     (let planMetadata = Map_Elements plan_md;
          stateMetadata = Map_Elements state_md
      in clear_state_metadata planMetadata stateMetadata
           (add_plan_metadata planMetadata metadata))"

section \<open>Webhook endpoint: update parameters\<close>

definition WebhookEndpointResource_buildUpdateParams ::
  "WebhookEndpointResourceModel \<Rightarrow> WebhookEndpointResourceModel \<Rightarrow> WebhookEndpointParams" where
  "WebhookEndpointResource_buildUpdateParams state plan =
     (let params = WebhookEndpointParams_zero;
          params = (if \<not> String_Equal (wem_Description plan) (wem_Description state)
                    then (if String_IsNull (wem_Description plan)
                          then params\<lparr>wp_Description := Some []\<rparr>
                          else params\<lparr>wp_Description := ValueStringPointer (wem_Description plan)\<rparr>)
                    else params);
          params = (if \<not> Bool_Equal (wem_Disabled plan) (wem_Disabled state)
                    then params\<lparr>wp_Disabled := ValueBoolPointer (wem_Disabled plan)\<rparr>
                    else params);
          params = (if \<not> List_Equal (wem_EnabledEvents plan) (wem_EnabledEvents state)
                    then params\<lparr>wp_EnabledEvents := convertListToStringPtrs (wem_EnabledEvents plan)\<rparr>
                    else params);
          params = (if \<not> Map_Equal (wem_Metadata plan) (wem_Metadata state)
                    then params\<lparr>wp_Metadata :=
                           diff_metadata (wem_Metadata state) (wem_Metadata plan) (wp_Metadata params)\<rparr>
                    else params);
          params = (if \<not> String_Equal (wem_URL plan) (wem_URL state)
                    then params\<lparr>wp_URL := ValueStringPointer (wem_URL plan)\<rparr>
                    else params)
      in params)"

section \<open>Product: create and update parameters\<close>

text \<open>
  The builders receive the diagnostics by value and return the params only: what they
  append to their copy is dropped with it, so the model leaves the copy out.
  \<^verbatim>\<open>Object.As\<close> fills the target struct from a known object and leaves it as it was (the
  zero struct, every field null) otherwise.
\<close>

definition ProductPackageDimensionsResourceModel_zero :: ProductPackageDimensionsResourceModel where
  "ProductPackageDimensionsResourceModel_zero =
     \<lparr>pdm_Height = Float64Null, pdm_Length = Float64Null, pdm_Weight = Float64Null,
      pdm_Width = Float64Null\<rparr>"

fun Object_As :: "'a tfObject \<Rightarrow> 'a \<Rightarrow> 'a" where
  "Object_As (ObjectValue d) target = d"
| "Object_As _ target = target"

definition dimensions_params :: "ProductPackageDimensionsResourceModel \<Rightarrow> ProductPackageDimensionsParams" where
  "dimensions_params packageDimensions =
     \<lparr>pdp_Height = ValueFloat64Pointer (pdm_Height packageDimensions),
      pdp_Length = ValueFloat64Pointer (pdm_Length packageDimensions),
      pdp_Weight = ValueFloat64Pointer (pdm_Weight packageDimensions),
      pdp_Width = ValueFloat64Pointer (pdm_Width packageDimensions)\<rparr>"

definition marketing_feature_params :: "tfString tfList \<Rightarrow> ProductMarketingFeatureParams list" where
  "marketing_feature_params features =
     map (\<lambda>str. \<lparr>pmf_Name = ValueStringPointer str\<rparr>) (List_Elements features)"

definition ProductResource_buildCreateParams :: "ProductResourceModel \<Rightarrow> ProductParams" where
  "ProductResource_buildCreateParams plan =
     (let params = ProductParams_zero;
          params = (if \<not> String_IsUnknown (pm_Id plan)
                    then params\<lparr>pp_ID := ValueStringPointer (pm_Id plan)\<rparr> else params);
          params = (if \<not> Bool_IsUnknown (pm_Active plan)
                    then params\<lparr>pp_Active := ValueBoolPointer (pm_Active plan)\<rparr> else params);
          params = (if \<not> String_IsUnknown (pm_DefaultPrice plan)
                    then params\<lparr>pp_DefaultPrice := ValueStringPointer (pm_DefaultPrice plan)\<rparr>
                    else params);
          params = (if \<not> String_IsUnknown (pm_Description plan)
                    then params\<lparr>pp_Description := ValueStringPointer (pm_Description plan)\<rparr>
                    else params);
          params = (if \<not> List_IsUnknown (pm_Images plan)
                    then params\<lparr>pp_Images := convertListToStringPtrs (pm_Images plan)\<rparr>
                    else params);
          params = (if \<not> List_IsUnknown (pm_MarketingFeatures plan)
                       \<and> \<not> List_IsNull (pm_MarketingFeatures plan)
                    then params\<lparr>pp_MarketingFeatures :=
                           Some (marketing_feature_params (pm_MarketingFeatures plan))\<rparr>
                    else params);
          params = (if \<not> Map_IsNull (pm_Metadata plan)
                    then params\<lparr>pp_Metadata :=
                           add_plan_metadata (Map_Elements (pm_Metadata plan)) (pp_Metadata params)\<rparr>
                    else params);
          params = (if \<not> String_IsUnknown (pm_Name plan)
                    then params\<lparr>pp_Name := ValueStringPointer (pm_Name plan)\<rparr> else params);
          params = (if \<not> Object_IsUnknown (pm_PackageDimensions plan)
                       \<and> \<not> Object_IsNull (pm_PackageDimensions plan)
                    then params\<lparr>pp_PackageDimensions :=
                           Some (dimensions_params
                             (Object_As (pm_PackageDimensions plan)
                                ProductPackageDimensionsResourceModel_zero))\<rparr>
                    else params);
          params = (if \<not> Bool_IsUnknown (pm_Shippable plan)
                    then params\<lparr>pp_Shippable := ValueBoolPointer (pm_Shippable plan)\<rparr>
                    else params);
          params = (if \<not> String_IsUnknown (pm_StatementDescriptor plan)
                    then params\<lparr>pp_StatementDescriptor :=
                           ValueStringPointer (pm_StatementDescriptor plan)\<rparr>
                    else params);
          params = (if \<not> String_IsUnknown (pm_TaxCode plan)
                    then params\<lparr>pp_TaxCode := ValueStringPointer (pm_TaxCode plan)\<rparr> else params);
          params = (if \<not> String_IsUnknown (pm_UnitLabel plan)
                    then params\<lparr>pp_UnitLabel := ValueStringPointer (pm_UnitLabel plan)\<rparr>
                    else params);
          params = (if \<not> String_IsUnknown (pm_URL plan)
                    then params\<lparr>pp_URL := ValueStringPointer (pm_URL plan)\<rparr> else params)
      in params)"

definition ProductResource_buildUpdateParams ::
  "ProductResourceModel \<Rightarrow> ProductResourceModel \<Rightarrow> ProductParams" where
  "ProductResource_buildUpdateParams state plan =
     (let params = ProductParams_zero;
          params = (if \<not> Bool_Equal (pm_Active plan) (pm_Active state)
                    then params\<lparr>pp_Active := ValueBoolPointer (pm_Active plan)\<rparr> else params);
          params = (if \<not> String_Equal (pm_DefaultPrice plan) (pm_DefaultPrice state)
                    then params\<lparr>pp_DefaultPrice := EmptyStringIfNull (pm_DefaultPrice plan)\<rparr>
                    else params);
          params = (if \<not> String_Equal (pm_Description plan) (pm_Description state)
                    then params\<lparr>pp_Description := EmptyStringIfNull (pm_Description plan)\<rparr>
                    else params);
          params = (if \<not> List_Equal (pm_Images plan) (pm_Images state)
                    then params\<lparr>pp_Images := convertListToStringPtrs (pm_Images plan)\<rparr>
                    else params);
          params = (if \<not> List_Equal (pm_MarketingFeatures plan) (pm_MarketingFeatures state)
                    then params\<lparr>pp_MarketingFeatures :=
                           Some (marketing_feature_params (pm_MarketingFeatures plan))\<rparr>
                    else params);
          params = (if \<not> Map_Equal (pm_Metadata plan) (pm_Metadata state)
                    then params\<lparr>pp_Metadata :=
                           diff_metadata (pm_Metadata state) (pm_Metadata plan) (pp_Metadata params)\<rparr>
                    else params);
          params = (if \<not> String_Equal (pm_Name plan) (pm_Name state)
                    then params\<lparr>pp_Name := ValueStringPointer (pm_Name plan)\<rparr> else params);
          params = (if \<not> Object_Equal (pm_PackageDimensions plan) (pm_PackageDimensions state)
                    then (if Object_IsNull (pm_PackageDimensions plan)
                          then params\<lparr>pp_PackageDimensions :=
                                 Some \<lparr>pdp_Height = Some 0, pdp_Length = Some 0,
                                       pdp_Weight = Some 0, pdp_Width = Some 0\<rparr>\<rparr>
                          else params\<lparr>pp_PackageDimensions :=
                                 Some (dimensions_params
                                   (Object_As (pm_PackageDimensions plan)
                                      ProductPackageDimensionsResourceModel_zero))\<rparr>)
                    else params);
          params = (if \<not> Bool_Equal (pm_Shippable plan) (pm_Shippable state)
                    then params\<lparr>pp_Shippable := ValueBoolPointer (pm_Shippable plan)\<rparr>
                    else params);
          params = (if \<not> String_Equal (pm_StatementDescriptor plan) (pm_StatementDescriptor state)
                    then params\<lparr>pp_StatementDescriptor :=
                           EmptyStringIfNull (pm_StatementDescriptor plan)\<rparr>
                    else params);
          params = (if \<not> String_Equal (pm_TaxCode plan) (pm_TaxCode state)
                    then params\<lparr>pp_TaxCode := EmptyStringIfNull (pm_TaxCode plan)\<rparr> else params);
          params = (if \<not> String_Equal (pm_UnitLabel plan) (pm_UnitLabel state)
                    then params\<lparr>pp_UnitLabel := EmptyStringIfNull (pm_UnitLabel plan)\<rparr>
                    else params);
          params = (if \<not> String_Equal (pm_URL plan) (pm_URL state)
                    then params\<lparr>pp_URL := EmptyStringIfNull (pm_URL plan)\<rparr> else params)
      in params)"

section \<open>Coupon: create and update parameters\<close>

text \<open>
  The loop over the plan's currency options: an entry whose \<open>top_level\<close> reads true sets
  the top-level \<^verbatim>\<open>AmountOff\<close> and \<^verbatim>\<open>Currency\<close>; any other entry is stored in the
  per-currency map, which was made before the loop. The create builder calls
  \<^verbatim>\<open>ElementsAs\<close> only on a map that is neither unknown nor null; a map without element type
  is null, so the call cannot panic there and the builder always returns.
\<close>

definition currency_create_step ::
  "string \<times> CouponCurrencyOptionsModel \<Rightarrow> CouponParams \<Rightarrow> CouponParams" where
  "currency_create_step = (\<lambda>(key, element) params.
     if ValueBool (ccom_TopLevel element)
     then params\<lparr>cp_AmountOff := ValueInt64Pointer (ccom_AmountOff element),
                 cp_Currency := Some key\<rparr>
     else params\<lparr>cp_CurrencyOptions :=
            map_option (\<lambda>m. m(key \<mapsto> \<lparr>ccop_AmountOff = ValueInt64Pointer (ccom_AmountOff element)\<rparr>))
              (cp_CurrencyOptions params)\<rparr>)"

definition CouponResource_buildCreateParams :: "CouponResourceModel \<Rightarrow> CouponParams" where
  "CouponResource_buildCreateParams data =
     (let params = CouponParams_zero;
          params = (if \<not> String_IsNull (cm_Id data) \<and> \<not> String_IsUnknown (cm_Id data)
                    then params\<lparr>cp_ID := ValueStringPointer (cm_Id data)\<rparr> else params);
          params = (if \<not> List_IsUnknown (cm_AppliesTo data) \<and> \<not> List_IsNull (cm_AppliesTo data)
                    then params\<lparr>cp_AppliesTo :=
                           Some (map ValueStringPointer (List_Elements (cm_AppliesTo data)))\<rparr>
                    else params);
          params = (if \<not> Map_IsUnknown (cm_CurrencyOptions data)
                       \<and> \<not> Map_IsNull (cm_CurrencyOptions data)
                    then (case Map_ElementsAs (cm_CurrencyOptions data) of
                            Some currencyOptions \<Rightarrow>
                              fold currency_create_step currencyOptions
                                (params\<lparr>cp_CurrencyOptions := Some Map.empty\<rparr>)
                          | None \<Rightarrow> params)
                    else params);
          params = (if \<not> String_IsUnknown (cm_Duration data)
                    then params\<lparr>cp_Duration := ValueStringPointer (cm_Duration data)\<rparr>
                    else params);
          params = (if \<not> Int64_IsUnknown (cm_DurationInMonths data)
                    then params\<lparr>cp_DurationInMonths := ValueInt64Pointer (cm_DurationInMonths data)\<rparr>
                    else params);
          params = (if \<not> Map_IsUnknown (cm_Metadata data)
                    then params\<lparr>cp_Metadata :=
                           add_plan_metadata (Map_Elements (cm_Metadata data)) (cp_Metadata params)\<rparr>
                    else params);
          params = (if \<not> Int64_IsUnknown (cm_MaxRedemptions data)
                    then params\<lparr>cp_MaxRedemptions := ValueInt64Pointer (cm_MaxRedemptions data)\<rparr>
                    else params);
          params = (if \<not> String_IsUnknown (cm_Name data)
                    then params\<lparr>cp_Name := ValueStringPointer (cm_Name data)\<rparr> else params);
          params = (if \<not> Float64_IsUnknown (cm_PercentOff data)
                    then params\<lparr>cp_PercentOff := ValueFloat64Pointer (cm_PercentOff data)\<rparr>
                    else params);
          params = (if \<not> Int64_IsUnknown (cm_RedeemBy data)
                    then params\<lparr>cp_RedeemBy := ValueInt64Pointer (cm_RedeemBy data)\<rparr>
                    else params)
      in params)"

text \<open>
  The update loop over the plan's currency options stores an entry only when the state has
  no entry under its key.
\<close>

definition currency_update_step ::
  "(string \<times> CouponCurrencyOptionsModel) list \<Rightarrow> string \<times> CouponCurrencyOptionsModel
     \<Rightarrow> CouponParams \<Rightarrow> CouponParams" where
  "currency_update_step stateCurrencyOptions = (\<lambda>(k, v) params.
     if map_of stateCurrencyOptions k = None
     then params\<lparr>cp_CurrencyOptions :=
            map_option (\<lambda>m. m(k \<mapsto> \<lparr>ccop_AmountOff = ValueInt64Pointer (ccom_AmountOff v)\<rparr>))
              (cp_CurrencyOptions params)\<rparr>
     else params)"

text \<open>
  The update builder calls \<^verbatim>\<open>ElementsAs\<close> on the state's and on the plan's currency
  options whenever the two are not \<^verbatim>\<open>Equal\<close>, without a test for null. A Go zero-value map
  equals nothing, so with one the calls are reached and the builder panics: the result
  \<open>None\<close>.
\<close>

definition CouponResource_buildUpdateParams ::
  "CouponResourceModel \<Rightarrow> CouponResourceModel \<Rightarrow> CouponParams option" where
  "CouponResource_buildUpdateParams state plan =
     (let params = CouponParams_zero;
          currency =
            (if \<not> Map_Equal (cm_CurrencyOptions plan) (cm_CurrencyOptions state)
             then (case Map_ElementsAs (cm_CurrencyOptions state) of
                     None \<Rightarrow> None
                   | Some stateCurrencyOptions \<Rightarrow>
                       (case Map_ElementsAs (cm_CurrencyOptions plan) of
                          None \<Rightarrow> None
                        | Some planCurrencyOptions \<Rightarrow>
                            Some (fold (currency_update_step stateCurrencyOptions)
                                    planCurrencyOptions
                                    (params\<lparr>cp_CurrencyOptions := Some Map.empty\<rparr>))))
             else Some params)
      in case currency of
           None \<Rightarrow> None
         | Some params \<Rightarrow>
             (let params = (if \<not> Map_Equal (cm_Metadata plan) (cm_Metadata state)
                            then params\<lparr>cp_Metadata :=
                                   diff_metadata (cm_Metadata state) (cm_Metadata plan)
                                     (cp_Metadata params)\<rparr>
                            else params);
                  params = (if \<not> String_Equal (cm_Name plan) (cm_Name state)
                            then params\<lparr>cp_Name := EmptyStringIfNull (cm_Name plan)\<rparr>
                            else params)
              in Some params))"

section \<open>Lifecycle handlers\<close>

text \<open>
  A handler reads its model from the request, which yields diagnostics and the model, and
  works on the response: the diagnostics of the invocation and the state. \<open>rs_State\<close> is the
  model handed to \<^verbatim>\<open>resp.State.Set\<close>, \<open>None\<close> as long as it was not called; storing a model
  is taken to report no diagnostics. The Stripe client is a record of its operations, each
  returning the error text or the remote object. A handler returns the response and the
  client calls it made, in order.
\<close>

record 'm Response =
  rs_Diagnostics :: Diagnostics
  rs_State :: "'m option"

record API =
  Coupons_New :: "CouponParams \<Rightarrow> string + Coupon"
  Coupons_Del :: "string \<Rightarrow> string + unit"
  Products_New :: "ProductParams \<Rightarrow> string + Product"
  Products_Del :: "string \<Rightarrow> string + unit"
  WebhookEndpoints_Del :: "string \<Rightarrow> string + unit"

datatype api_call =
    Call_Coupons_New CouponParams
  | Call_Coupons_Del string
  | Call_Products_New ProductParams
  | Call_Products_Del string
  | Call_WebhookEndpoints_Del string

definition State_Set :: "'m Response \<Rightarrow> 'm \<Rightarrow> 'm Response" where
  "State_Set resp model = resp\<lparr>rs_State := Some model\<rparr>"

definition CouponResource_Create ::
  "framework \<Rightarrow> API \<Rightarrow> Diagnostics \<times> CouponResourceModel \<Rightarrow> CouponResourceModel Response
     \<Rightarrow> CouponResourceModel Response \<times> api_call list" where
  "CouponResource_Create fw sc req_Plan_Get resp0 =
     (let (diags, plan) = req_Plan_Get;
          resp = resp0\<lparr>rs_Diagnostics := Append (rs_Diagnostics resp0) diags\<rparr>
      in if HasError (rs_Diagnostics resp) then (resp, [])
         else
           (let params = CouponResource_buildCreateParams plan;
                params = AddExpand params ''currency_options''
            in case Coupons_New sc params of
                 Inl err \<Rightarrow>
                   (resp\<lparr>rs_Diagnostics := AddError (rs_Diagnostics resp) ''Client Error''
                      (''Unable to create webhook endpoint, got error: '' @ err)\<rparr>,
                    [Call_Coupons_New params])
               | Inr coupon \<Rightarrow>
                   (let plan = plan\<lparr>cm_Id := StringValue (c_ID coupon)\<rparr>;
                        (plan, respDiag) =
                          CouponResource_populateModel fw plan coupon (rs_Diagnostics resp)
                    in (State_Set resp plan, [Call_Coupons_New params]))))"

definition ProductResource_Create ::
  "framework \<Rightarrow> API \<Rightarrow> Diagnostics \<times> ProductResourceModel \<Rightarrow> ProductResourceModel Response
     \<Rightarrow> ProductResourceModel Response \<times> api_call list" where
  "ProductResource_Create fw sc req_Plan_Get resp0 =
     (let (diags, plan) = req_Plan_Get;
          resp = resp0\<lparr>rs_Diagnostics := Append (rs_Diagnostics resp0) diags\<rparr>
      in if HasError (rs_Diagnostics resp) then (resp, [])
         else
           (let params = ProductResource_buildCreateParams plan
            in if HasError (rs_Diagnostics resp) then (resp, [])
               else
                 (case Products_New sc params of
                    Inl err \<Rightarrow>
                      (resp\<lparr>rs_Diagnostics := AddError (rs_Diagnostics resp) ''Client Error''
                         (''Unable to create webhook endpoint, got error: '' @ err)\<rparr>,
                       [Call_Products_New params])
                  | Inr product \<Rightarrow>
                      (let plan = plan\<lparr>pm_Id := StringValue (p_ID product)\<rparr>;
                           (plan, respDiag) =
                             ProductResource_populateModel fw plan product (rs_Diagnostics resp)
                       in if HasError (rs_Diagnostics resp) then (resp, [Call_Products_New params])
                          else (State_Set resp plan, [Call_Products_New params])))))"

definition CouponResource_Delete ::
  "API \<Rightarrow> Diagnostics \<times> CouponResourceModel \<Rightarrow> CouponResourceModel Response
     \<Rightarrow> CouponResourceModel Response \<times> api_call list" where
  "CouponResource_Delete sc req_State_Get resp0 =
     (let (diags, state) = req_State_Get;
          resp = resp0\<lparr>rs_Diagnostics := Append (rs_Diagnostics resp0) diags\<rparr>
      in if HasError (rs_Diagnostics resp) then (resp, [])
         else
           (case Coupons_Del sc (ValueString (cm_Id state)) of
              Inl err \<Rightarrow>
                (resp\<lparr>rs_Diagnostics := AddError (rs_Diagnostics resp) ''Client Error''
                   (''Unable to delete webhook endpoint, got error: '' @ err)\<rparr>,
                 [Call_Coupons_Del (ValueString (cm_Id state))])
            | Inr ok \<Rightarrow> (resp, [Call_Coupons_Del (ValueString (cm_Id state))])))"

definition price_delete_message :: string where
  "price_delete_message =
     ''Stripe API does not support deleting prices. Please archive the price instead.''"

definition PriceResource_Delete ::
  "API \<Rightarrow> Diagnostics \<times> PriceResourceModel \<Rightarrow> PriceResourceModel Response
     \<Rightarrow> PriceResourceModel Response \<times> api_call list" where
  "PriceResource_Delete sc req_State_Get resp0 =
     (let (diags, state) = req_State_Get;
          resp = resp0\<lparr>rs_Diagnostics := Append (rs_Diagnostics resp0) diags\<rparr>
      in if HasError (rs_Diagnostics resp) then (resp, [])
         else
           (let resp = resp\<lparr>rs_Diagnostics :=
                         AddError (rs_Diagnostics resp) ''Client Error'' price_delete_message\<rparr>
            in if HasError (rs_Diagnostics resp) then (resp, []) else (resp, [])))"

section \<open>Go zero values\<close>

text \<open>
  The values of \<^verbatim>\<open>WebhookEndpointResourceModel{}\<close>, \<^verbatim>\<open>ProductResourceModel{}\<close>,
  \<^verbatim>\<open>CouponResourceModel{}\<close>, \<^verbatim>\<open>PriceResourceModel{}\<close> and of the remote structs
  \<^verbatim>\<open>stripe.WebhookEndpoint{}\<close>, \<^verbatim>\<open>stripe.Product{}\<close>, \<^verbatim>\<open>stripe.Coupon{}\<close>, \<^verbatim>\<open>stripe.Price{}\<close>,
  which the repository's unit tests start from: every scalar attribute is null, every list
  and map is the one without element type.
\<close>

definition WebhookEndpointResourceModel_zero :: WebhookEndpointResourceModel where
  "WebhookEndpointResourceModel_zero =
     \<lparr>wem_Id = StringNull, wem_APIVersion = StringNull, wem_Application = StringNull,
      wem_Description = StringNull, wem_Disabled = BoolNull, wem_EnabledEvents = ListZero,
      wem_Metadata = MapZero, wem_Secret = StringNull, wem_URL = StringNull\<rparr>"

definition ProductResourceModel_zero :: ProductResourceModel where
  "ProductResourceModel_zero =
     \<lparr>pm_Id = StringNull, pm_Active = BoolNull, pm_DefaultPrice = StringNull,
      pm_Description = StringNull, pm_Images = ListZero, pm_MarketingFeatures = ListZero,
      pm_Metadata = MapZero, pm_Name = StringNull, pm_PackageDimensions = ObjectNull,
      pm_Shippable = BoolNull, pm_StatementDescriptor = StringNull, pm_TaxCode = StringNull,
      pm_UnitLabel = StringNull, pm_URL = StringNull\<rparr>"

definition CouponResourceModel_zero :: CouponResourceModel where
  "CouponResourceModel_zero =
     \<lparr>cm_Id = StringNull, cm_AppliesTo = ListZero, cm_CurrencyOptions = MapZero,
      cm_Duration = StringNull, cm_DurationInMonths = Int64Null, cm_MaxRedemptions = Int64Null,
      cm_Metadata = MapZero, cm_Name = StringNull, cm_PercentOff = Float64Null,
      cm_RedeemBy = Int64Null\<rparr>"

text \<open>
  The coupon model with every attribute null as the framework decodes it from a request:
  the lists and maps carry their element types.
\<close>

definition CouponResourceModel_null :: CouponResourceModel where
  "CouponResourceModel_null =
     \<lparr>cm_Id = StringNull, cm_AppliesTo = ListNull StringType,
      cm_CurrencyOptions = MapNull (ObjectType CouponCurrencyOptionsModel_Types),
      cm_Duration = StringNull, cm_DurationInMonths = Int64Null, cm_MaxRedemptions = Int64Null,
      cm_Metadata = MapNull StringType, cm_Name = StringNull, cm_PercentOff = Float64Null,
      cm_RedeemBy = Int64Null\<rparr>"

definition PriceResourceModel_zero :: PriceResourceModel where
  "PriceResourceModel_zero =
     \<lparr>prm_Id = StringNull, prm_Active = BoolNull, prm_BillingScheme = StringNull,
      prm_Currency = StringNull, prm_LookupKey = StringNull, prm_Nickname = StringNull,
      prm_Product = StringNull, prm_TaxBehavior = StringNull, prm_Tiers = ListZero,
      prm_TiersMode = StringNull, prm_UnitAmount = Int64Null, prm_UnitAmountDecimal = Float64Null\<rparr>"

definition WebhookEndpoint_zero :: WebhookEndpoint where
  "WebhookEndpoint_zero =
     \<lparr>we_ID = [], we_Secret = [], we_APIVersion = [], we_Application = [], we_Description = [],
      we_EnabledEvents = None, we_Metadata = None, we_Status = [], we_URL = []\<rparr>"

definition Product_zero :: Product where
  "Product_zero =
     \<lparr>p_ID = [], p_Active = False, p_DefaultPrice = None, p_Description = [], p_Images = None,
      p_MarketingFeatures = None, p_Metadata = None, p_Name = [], p_PackageDimensions = None,
      p_Shippable = False, p_StatementDescriptor = [], p_TaxCode = None, p_UnitLabel = [],
      p_URL = []\<rparr>"

definition Coupon_zero :: Coupon where
  "Coupon_zero =
     \<lparr>c_ID = [], c_AppliesTo = None, c_Currency = [], c_CurrencyOptions = [], c_Duration = [],
      c_DurationInMonths = 0, c_MaxRedemptions = 0, c_Metadata = None, c_Name = [],
      c_PercentOff = 0, c_RedeemBy = 0\<rparr>"

definition Price_zero :: Price where
  "Price_zero =
     \<lparr>pr_ID = [], pr_Active = False, pr_BillingScheme = [], pr_Currency = [], pr_LookupKey = [],
      pr_Nickname = [], pr_Product = None, pr_TaxBehavior = [], pr_TiersMode = [],
      pr_UnitAmount = 0, pr_UnitAmountDecimal = 0\<rparr>"

text \<open>A client none of whose operations succeeds, for concrete runs.\<close>

definition sc_unreachable :: API where
  "sc_unreachable =
     \<lparr>Coupons_New = (\<lambda>params. Inl ''unreachable''), Coupons_Del = (\<lambda>id. Inl ''unreachable''),
      Products_New = (\<lambda>params. Inl ''unreachable''), Products_Del = (\<lambda>id. Inl ''unreachable''),
      WebhookEndpoints_Del = (\<lambda>id. Inl ''unreachable'')\<rparr>"

text \<open>A product model that holds no unknown value, at any depth.\<close>

definition dimensions_no_unknown :: "ProductPackageDimensionsResourceModel tfObject \<Rightarrow> bool" where
  "dimensions_no_unknown pd =
     (case pd of
        ObjectNull \<Rightarrow> True
      | ObjectUnknown \<Rightarrow> False
      | ObjectValue d \<Rightarrow> \<not> Float64_IsUnknown (pdm_Height d) \<and> \<not> Float64_IsUnknown (pdm_Length d)
          \<and> \<not> Float64_IsUnknown (pdm_Weight d) \<and> \<not> Float64_IsUnknown (pdm_Width d))"

definition ProductResourceModel_no_unknown :: "ProductResourceModel \<Rightarrow> bool" where
  "ProductResourceModel_no_unknown m =
     (\<not> String_IsUnknown (pm_Id m) \<and> \<not> Bool_IsUnknown (pm_Active m)
      \<and> \<not> String_IsUnknown (pm_DefaultPrice m) \<and> \<not> String_IsUnknown (pm_Description m)
      \<and> \<not> List_IsUnknown (pm_Images m)
      \<and> list_all (\<lambda>e. \<not> String_IsUnknown e) (List_Elements (pm_Images m))
      \<and> \<not> List_IsUnknown (pm_MarketingFeatures m)
      \<and> list_all (\<lambda>e. \<not> String_IsUnknown e) (List_Elements (pm_MarketingFeatures m))
      \<and> \<not> Map_IsUnknown (pm_Metadata m)
      \<and> list_all (\<lambda>(k, e). \<not> String_IsUnknown e) (Map_Elements (pm_Metadata m))
      \<and> \<not> String_IsUnknown (pm_Name m) \<and> dimensions_no_unknown (pm_PackageDimensions m)
      \<and> \<not> Bool_IsUnknown (pm_Shippable m) \<and> \<not> String_IsUnknown (pm_StatementDescriptor m)
      \<and> \<not> String_IsUnknown (pm_TaxCode m) \<and> \<not> String_IsUnknown (pm_UnitLabel m)
      \<and> \<not> String_IsUnknown (pm_URL m))"

section \<open>The plan modifier of the webhook endpoint's disabled attribute\<close>

record BoolRequest =
  req_Path :: string
  req_StateRawIsNull :: bool
  req_PlanValue :: tfBool

record BoolResponse =
  resp_PlanValue :: tfBool
  resp_Diagnostics :: Diagnostics

definition Sprintf_bool :: "bool \<Rightarrow> string" where
  "Sprintf_bool b = (if b then ''true'' else ''false'')"

definition PlanModifyBool :: "bool \<Rightarrow> BoolRequest \<Rightarrow> BoolResponse \<Rightarrow> BoolResponse" where
  "PlanModifyBool m_value req resp =
     (if req_StateRawIsNull req \<and> Bool_Equal (req_PlanValue req) (BoolValue m_value)
      then resp\<lparr>resp_Diagnostics :=
             AddAttributeError (resp_Diagnostics resp) (req_Path req) ''Client Error''
               (''Cannot create resource with attribute set to '' @ Sprintf_bool m_value)\<rparr>
      else resp)"

text \<open>The schema of the webhook endpoint attaches \<^verbatim>\<open>DisallowOnCreateOnValue(true)\<close>.\<close>

definition disabled_PlanModifyBool :: "BoolRequest \<Rightarrow> BoolResponse \<Rightarrow> BoolResponse" where
  "disabled_PlanModifyBool = PlanModifyBool True"

section \<open>Theorems\<close>

lemma Append_keeps: "d \<in> set diags \<Longrightarrow> d \<in> set (Append diags ds)"
  by (induction ds arbitrary: diags) auto

lemma Append_adds: "d \<in> set ds \<Longrightarrow> d \<in> set (Append diags ds)"
proof (induction ds arbitrary: diags)
  case Nil
  then show ?case by simp
next
  case (Cons a ds)
  show ?case
  proof (cases "d = a")
    case True
    have "a \<in> set (if a \<in> set diags then diags else diags @ [a])" by simp
    then show ?thesis using True by (simp add: Append_keeps)
  next
    case False
    then show ?thesis using Cons by simp
  qed
qed

lemma HasError_iff: "HasError diags \<longleftrightarrow> (\<exists>d \<in> set diags. is_error d)"
  by (simp add: HasError_def list_ex_iff)

text \<open>
  C10. The plan modifier of \<open>disabled\<close> adds an attribute error exactly when the prior
  state is null (a create) and the planned value is \<open>true\<close>; in every other case the
  response is returned as it came, diagnostics and plan value untouched. The plan value is
  never changed. On a create with \<open>disabled = true\<close> the response therefore carries an
  error.
\<close>

theorem disabled_modifier_rejects_create_only:
  "(req_StateRawIsNull req \<and> req_PlanValue req = BoolValue True \<longrightarrow>
      AttributeErrorDiagnostic (req_Path req) ''Client Error''
          ''Cannot create resource with attribute set to true''
        \<in> set (resp_Diagnostics (disabled_PlanModifyBool req resp))
      \<and> HasError (resp_Diagnostics (disabled_PlanModifyBool req resp)))
   \<and> (\<not> (req_StateRawIsNull req \<and> req_PlanValue req = BoolValue True) \<longrightarrow>
      disabled_PlanModifyBool req resp = resp)
   \<and> resp_PlanValue (disabled_PlanModifyBool req resp) = resp_PlanValue resp"
proof -
  let ?d = "AttributeErrorDiagnostic (req_Path req) ''Client Error''
              ''Cannot create resource with attribute set to true''"
  have mem: "?d \<in> set (Append (resp_Diagnostics resp) [?d])"
    by (rule Append_adds) simp
  have err: "HasError (Append (resp_Diagnostics resp) [?d])"
    using mem unfolding HasError_iff by (intro bexI [of _ ?d]) simp_all
  show ?thesis
    using mem err
    by (simp add: disabled_PlanModifyBool_def PlanModifyBool_def Bool_Equal_def
        AddAttributeError_def Sprintf_bool_def del: Append.simps)
qed

theorem disabled_modifier_rejects_create_only_witness:
  "HasError (resp_Diagnostics (disabled_PlanModifyBool
      \<lparr>req_Path = ''disabled'', req_StateRawIsNull = True, req_PlanValue = BoolValue True\<rparr>
      \<lparr>resp_PlanValue = BoolValue True, resp_Diagnostics = []\<rparr>))
   \<and> disabled_PlanModifyBool
      \<lparr>req_Path = ''disabled'', req_StateRawIsNull = False, req_PlanValue = BoolValue True\<rparr>
      \<lparr>resp_PlanValue = BoolValue True, resp_Diagnostics = []\<rparr>
     = \<lparr>resp_PlanValue = BoolValue True, resp_Diagnostics = []\<rparr>"
  using disabled_modifier_rejects_create_only
      [of "\<lparr>req_Path = ''disabled'', req_StateRawIsNull = True, req_PlanValue = BoolValue True\<rparr>"
          "\<lparr>resp_PlanValue = BoolValue True, resp_Diagnostics = []\<rparr>"]
    disabled_modifier_rejects_create_only
      [of "\<lparr>req_Path = ''disabled'', req_StateRawIsNull = False, req_PlanValue = BoolValue True\<rparr>"
          "\<lparr>resp_PlanValue = BoolValue True, resp_Diagnostics = []\<rparr>"]
  by simp

subsection \<open>Projections of the conversions and of populate\<close>

lemma snd_ListValueFrom: "snd (ListValueFrom fw xs) = fw_list_diags fw xs"
  by (simp add: ListValueFrom_def Let_def split: option.splits)

lemma snd_MapValueFrom: "snd (MapValueFrom fw xs) = fw_map_diags fw xs"
  by (simp add: MapValueFrom_def Let_def split: option.splits)

lemma snd_MapValueFrom_currency: "snd (MapValueFrom_currency fw xs) = fw_currency_diags fw xs"
  by (simp add: MapValueFrom_currency_def Let_def)

lemma snd_ObjectValueFrom: "snd (ObjectValueFrom fw d) = fw_dimensions_diags fw d"
  by (simp add: ObjectValueFrom_def Let_def)

lemma webhook_populate_scalars:
  "wem_APIVersion (fst (WebhookEndpointResource_populateModel fw m we d))
     = StringNullIfEmpty (we_APIVersion we)"
  "wem_Application (fst (WebhookEndpointResource_populateModel fw m we d))
     = StringNullIfEmpty (we_Application we)"
  "wem_Description (fst (WebhookEndpointResource_populateModel fw m we d))
     = StringNullIfEmpty (we_Description we)"
  by (simp_all add: WebhookEndpointResource_populateModel_def Let_def case_prod_beta)

lemma webhook_populate_concrete:
  assumes "\<not> HasError (fw_list_diags fw (we_EnabledEvents we))"
    and "\<not> HasError (fw_map_diags fw (we_Metadata we))"
  shows "wem_Disabled (fst (WebhookEndpointResource_populateModel fw m we d))
           = BoolValue (we_Status we = ''disabled'')"
    and "wem_URL (fst (WebhookEndpointResource_populateModel fw m we d)) = StringValue (we_URL we)"
  using assms
  by (simp_all add: WebhookEndpointResource_populateModel_def Let_def case_prod_beta
      snd_ListValueFrom snd_MapValueFrom)

lemma product_populate_scalars:
  "pm_Description (fst (ProductResource_populateModel fw m p d))
     = StringNullIfEmpty (p_Description p)"
  "pm_StatementDescriptor (fst (ProductResource_populateModel fw m p d))
     = StringNullIfEmpty (p_StatementDescriptor p)"
  "pm_UnitLabel (fst (ProductResource_populateModel fw m p d)) = StringNullIfEmpty (p_UnitLabel p)"
  "pm_URL (fst (ProductResource_populateModel fw m p d)) = StringNullIfEmpty (p_URL p)"
  "pm_Active (fst (ProductResource_populateModel fw m p d)) = BoolValue (p_Active p)"
  "pm_Shippable (fst (ProductResource_populateModel fw m p d)) = BoolValue (p_Shippable p)"
  "pm_Name (fst (ProductResource_populateModel fw m p d)) = StringValue (p_Name p)"
  by (simp_all add: ProductResource_populateModel_def Let_def case_prod_beta split: option.splits)

lemma product_populate_dimensions:
  "pm_PackageDimensions (fst (ProductResource_populateModel fw m p d)) =
     (if dimensions_nonzero (p_PackageDimensions p)
      then fst (ObjectValueFrom fw (dimensions_model (the (p_PackageDimensions p))))
      else ObjectNull)"
  by (simp add: ProductResource_populateModel_def Let_def case_prod_beta split: option.splits)

lemma coupon_populate_scalars:
  "cm_Duration (fst (CouponResource_populateModel fw m c d)) = StringNullIfEmpty (c_Duration c)"
  "cm_DurationInMonths (fst (CouponResource_populateModel fw m c d))
     = Int64NullIfEmpty (c_DurationInMonths c)"
  "cm_MaxRedemptions (fst (CouponResource_populateModel fw m c d))
     = Int64NullIfEmpty (c_MaxRedemptions c)"
  "cm_Name (fst (CouponResource_populateModel fw m c d)) = StringNullIfEmpty (c_Name c)"
  "cm_PercentOff (fst (CouponResource_populateModel fw m c d)) = Float64NullIfEmpty (c_PercentOff c)"
  "cm_RedeemBy (fst (CouponResource_populateModel fw m c d)) = Int64NullIfEmpty (c_RedeemBy c)"
  by (simp_all add: CouponResource_populateModel_def Let_def case_prod_beta split: option.splits)

subsection \<open>Null normalization in populate\<close>

text \<open>
  C1, as stated, fails. The claim says that populate maps every zero-valued remote scalar
  other than a boolean to null, and names the product's \<open>name\<close> and the price's
  \<open>lookup_key\<close>. The product handler copies \<open>name\<close>, a required attribute, with
  \<^verbatim>\<open>types.StringValue\<close>: the empty remote name becomes the concrete empty string, which is
  what the repository's test of populate expects for its empty product. The price handler
  copies every scalar in the same way.
\<close>

theorem populate_zero_scalar_counterexample:
  "pm_Name (fst (ProductResource_populateModel fw_ok ProductResourceModel_zero Product_zero []))
     = StringValue []
   \<and> pm_Name (fst (ProductResource_populateModel fw_ok ProductResourceModel_zero Product_zero []))
     \<noteq> StringNull
   \<and> map_option prm_LookupKey
        (PriceResource_populateModel PriceResourceModel_zero (Price_zero\<lparr>pr_Product := Some ''prod_1''\<rparr>))
     = Some (StringValue [])"
  by (simp add: product_populate_scalars Product_zero_def PriceResource_populateModel_def
      Price_zero_def)

text \<open>
  C1, amended. Populate maps a zero-valued remote scalar to null, and a non-zero one to
  its concrete value, for the attributes it passes through the helpers
  \<^verbatim>\<open>StringNullIfEmpty\<close>, \<^verbatim>\<open>Int64NullIfEmpty\<close> and \<^verbatim>\<open>Float64NullIfEmpty\<close>: the webhook endpoint's
  \<open>api_version\<close>, \<open>application\<close> and \<open>description\<close>; the product's \<open>description\<close>,
  \<open>statement_descriptor\<close>, \<open>unit_label\<close> and \<open>url\<close>; the coupon's \<open>duration\<close>,
  \<open>duration_in_months\<close>, \<open>max_redemptions\<close>, \<open>name\<close>, \<open>percent_off\<close> and \<open>redeem_by\<close>.
  Booleans are always concrete (the product's \<open>active\<close> and \<open>shippable\<close>; the webhook
  endpoint's \<open>disabled\<close> once the conversions of the call reported no error), and the
  required strings, the product's \<open>name\<close> and the webhook endpoint's \<open>url\<close>, are copied as
  concrete values, the empty string included. Nothing is said about the price handler.
\<close>

theorem populate_null_normalization:
  "(let wm' = fst (WebhookEndpointResource_populateModel fw wm we wd);
        pm' = fst (ProductResource_populateModel fw pm p pd);
        cm' = fst (CouponResource_populateModel fw cm c cd)
    in wem_APIVersion wm' = (if we_APIVersion we = [] then StringNull else StringValue (we_APIVersion we))
     \<and> wem_Application wm' = (if we_Application we = [] then StringNull else StringValue (we_Application we))
     \<and> wem_Description wm' = (if we_Description we = [] then StringNull else StringValue (we_Description we))
     \<and> pm_Description pm' = (if p_Description p = [] then StringNull else StringValue (p_Description p))
     \<and> pm_StatementDescriptor pm'
         = (if p_StatementDescriptor p = [] then StringNull else StringValue (p_StatementDescriptor p))
     \<and> pm_UnitLabel pm' = (if p_UnitLabel p = [] then StringNull else StringValue (p_UnitLabel p))
     \<and> pm_URL pm' = (if p_URL p = [] then StringNull else StringValue (p_URL p))
     \<and> cm_Duration cm' = (if c_Duration c = [] then StringNull else StringValue (c_Duration c))
     \<and> cm_DurationInMonths cm'
         = (if c_DurationInMonths c = 0 then Int64Null else Int64Value (c_DurationInMonths c))
     \<and> cm_MaxRedemptions cm'
         = (if c_MaxRedemptions c = 0 then Int64Null else Int64Value (c_MaxRedemptions c))
     \<and> cm_Name cm' = (if c_Name c = [] then StringNull else StringValue (c_Name c))
     \<and> cm_PercentOff cm' = (if c_PercentOff c = 0 then Float64Null else Float64Value (c_PercentOff c))
     \<and> cm_RedeemBy cm' = (if c_RedeemBy c = 0 then Int64Null else Int64Value (c_RedeemBy c))
     \<and> pm_Active pm' = BoolValue (p_Active p)
     \<and> pm_Shippable pm' = BoolValue (p_Shippable p)
     \<and> pm_Name pm' = StringValue (p_Name p)
     \<and> (\<not> HasError (fw_list_diags fw (we_EnabledEvents we))
          \<and> \<not> HasError (fw_map_diags fw (we_Metadata we))
        \<longrightarrow> wem_Disabled wm' = BoolValue (we_Status we = ''disabled'')
          \<and> wem_URL wm' = StringValue (we_URL we)))"
  unfolding Let_def
  by (simp only: webhook_populate_scalars product_populate_scalars coupon_populate_scalars
      StringNullIfEmpty_def Int64NullIfEmpty_def Float64NullIfEmpty_def)
    (simp add: webhook_populate_concrete)

theorem populate_null_normalization_witness:
  "cm_Name (fst (CouponResource_populateModel fw_ok CouponResourceModel_zero Coupon_zero []))
     = StringNull
   \<and> cm_RedeemBy (fst (CouponResource_populateModel fw_ok CouponResourceModel_zero Coupon_zero []))
     = Int64Null
   \<and> cm_Name (fst (CouponResource_populateModel fw_ok CouponResourceModel_zero
        (Coupon_zero\<lparr>c_Name := ''test_name'', c_RedeemBy := 1629484800\<rparr>) []))
     = StringValue ''test_name''
   \<and> cm_RedeemBy (fst (CouponResource_populateModel fw_ok CouponResourceModel_zero
        (Coupon_zero\<lparr>c_Name := ''test_name'', c_RedeemBy := 1629484800\<rparr>) []))
     = Int64Value 1629484800
   \<and> wem_Disabled (fst (WebhookEndpointResource_populateModel fw_ok
        WebhookEndpointResourceModel_zero WebhookEndpoint_zero []))
     = BoolValue False"
  using populate_null_normalization
      [of fw_ok WebhookEndpointResourceModel_zero WebhookEndpoint_zero "[]"
          ProductResourceModel_zero Product_zero "[]" CouponResourceModel_zero Coupon_zero "[]"]
    populate_null_normalization
      [of fw_ok WebhookEndpointResourceModel_zero WebhookEndpoint_zero "[]"
          ProductResourceModel_zero Product_zero "[]" CouponResourceModel_zero
          "Coupon_zero\<lparr>c_Name := ''test_name'', c_RedeemBy := 1629484800\<rparr>" "[]"]
  by (simp add: Let_def Coupon_zero_def WebhookEndpoint_zero_def fw_ok_def HasError_def)

subsection \<open>Package dimensions\<close>

text \<open>
  C8. Product populate sets \<open>package_dimensions\<close> to null exactly when the remote struct
  is absent or one of height, length, weight, width is zero. When the struct is present,
  all four are non-zero and the framework's object conversion reports no error, the
  attribute is the known object holding the four remote values. Whenever the attribute is
  a known object, it holds all four remote values and all four are non-zero: no partially
  populated object arises.
\<close>

theorem product_package_dimensions_all_or_nothing:
  "(let pd' = pm_PackageDimensions (fst (ProductResource_populateModel fw m p d))
    in (pd' = ObjectNull \<longleftrightarrow>
          (case p_PackageDimensions p of
             None \<Rightarrow> True
           | Some dims \<Rightarrow> pd_Height dims = 0 \<or> pd_Length dims = 0 \<or> pd_Weight dims = 0
                          \<or> pd_Width dims = 0))
     \<and> (\<forall>dims. p_PackageDimensions p = Some dims \<and> pd_Height dims \<noteq> 0 \<and> pd_Length dims \<noteq> 0
            \<and> pd_Weight dims \<noteq> 0 \<and> pd_Width dims \<noteq> 0
            \<and> \<not> HasError (fw_dimensions_diags fw (dimensions_model dims))
          \<longrightarrow> pd' = ObjectValue
                 \<lparr>pdm_Height = Float64Value (pd_Height dims),
                  pdm_Length = Float64Value (pd_Length dims),
                  pdm_Weight = Float64Value (pd_Weight dims),
                  pdm_Width = Float64Value (pd_Width dims)\<rparr>)
     \<and> (\<forall>v. pd' = ObjectValue v \<longrightarrow>
          (\<exists>dims. p_PackageDimensions p = Some dims \<and> pd_Height dims \<noteq> 0 \<and> pd_Length dims \<noteq> 0
             \<and> pd_Weight dims \<noteq> 0 \<and> pd_Width dims \<noteq> 0
             \<and> v = \<lparr>pdm_Height = Float64Value (pd_Height dims),
                     pdm_Length = Float64Value (pd_Length dims),
                     pdm_Weight = Float64Value (pd_Weight dims),
                     pdm_Width = Float64Value (pd_Width dims)\<rparr>)))"
  unfolding Let_def product_populate_dimensions
  by (cases "p_PackageDimensions p")
    (auto simp: dimensions_nonzero_def ObjectValueFrom_def Let_def dimensions_model_def)

theorem product_package_dimensions_all_or_nothing_witness:
  "pm_PackageDimensions (fst (ProductResource_populateModel fw_ok ProductResourceModel_zero
      (Product_zero\<lparr>p_PackageDimensions :=
         Some \<lparr>pd_Height = 0, pd_Length = 2, pd_Weight = 1 / 2, pd_Width = 1\<rparr>\<rparr>) []))
     = ObjectNull
   \<and> pm_PackageDimensions (fst (ProductResource_populateModel fw_ok ProductResourceModel_zero
      (Product_zero\<lparr>p_PackageDimensions :=
         Some \<lparr>pd_Height = 3 / 2, pd_Length = 2, pd_Weight = 1 / 2, pd_Width = 1\<rparr>\<rparr>) []))
     = ObjectValue \<lparr>pdm_Height = Float64Value (3 / 2), pdm_Length = Float64Value 2,
         pdm_Weight = Float64Value (1 / 2), pdm_Width = Float64Value 1\<rparr>"
proof -
  let ?half = "\<lparr>pd_Height = 0, pd_Length = 2, pd_Weight = 1 / 2, pd_Width = 1\<rparr>"
  let ?full = "\<lparr>pd_Height = 3 / 2, pd_Length = 2, pd_Weight = 1 / 2, pd_Width = 1\<rparr>"
  have a: "pm_PackageDimensions (fst (ProductResource_populateModel fw_ok ProductResourceModel_zero
      (Product_zero\<lparr>p_PackageDimensions := Some ?half\<rparr>) [])) = ObjectNull"
    using product_package_dimensions_all_or_nothing
      [of fw_ok ProductResourceModel_zero "Product_zero\<lparr>p_PackageDimensions := Some ?half\<rparr>" "[]",
        unfolded Let_def, THEN conjunct1]
    by simp
  have b: "pm_PackageDimensions (fst (ProductResource_populateModel fw_ok ProductResourceModel_zero
      (Product_zero\<lparr>p_PackageDimensions := Some ?full\<rparr>) []))
     = ObjectValue \<lparr>pdm_Height = Float64Value (3 / 2), pdm_Length = Float64Value 2,
         pdm_Weight = Float64Value (1 / 2), pdm_Width = Float64Value 1\<rparr>"
    using product_package_dimensions_all_or_nothing
      [of fw_ok ProductResourceModel_zero "Product_zero\<lparr>p_PackageDimensions := Some ?full\<rparr>" "[]",
        unfolded Let_def, THEN conjunct2, THEN conjunct1, THEN spec, of ?full]
    by (simp add: fw_ok_def HasError_def)
  show ?thesis using a b by simp
qed

subsection \<open>Deleting a price\<close>

lemma CouponResource_Delete_calls:
  "\<not> HasError (Append (rs_Diagnostics resp) (fst req_State_Get)) \<Longrightarrow>
   snd (CouponResource_Delete sc req_State_Get resp)
     = [Call_Coupons_Del (ValueString (cm_Id (snd req_State_Get)))]"
  by (simp add: CouponResource_Delete_def Let_def case_prod_beta split: sum.splits)

text \<open>
  C9. A price delete whose state was read without error adds the fixed error diagnostic
  (summary \<open>Client Error\<close>, the message that Stripe does not support deleting prices) to the
  diagnostics of the invocation, which then hold an error; it makes no call to the client,
  whatever the request, and leaves the state as it was. (The coupon handler, by contrast,
  calls the client's delete: \<open>CouponResource_Delete_calls\<close>.)
\<close>

theorem price_delete_is_refused:
  "snd (PriceResource_Delete sc req_State_Get resp) = []
   \<and> (\<not> HasError (Append (rs_Diagnostics resp) (fst req_State_Get)) \<longrightarrow>
        fst (PriceResource_Delete sc req_State_Get resp) =
          resp\<lparr>rs_Diagnostics :=
            Append (Append (rs_Diagnostics resp) (fst req_State_Get))
              [ErrorDiagnostic ''Client Error''
                 ''Stripe API does not support deleting prices. Please archive the price instead.'']\<rparr>
        \<and> ErrorDiagnostic ''Client Error''
             ''Stripe API does not support deleting prices. Please archive the price instead.''
           \<in> set (rs_Diagnostics (fst (PriceResource_Delete sc req_State_Get resp)))
        \<and> HasError (rs_Diagnostics (fst (PriceResource_Delete sc req_State_Get resp)))
        \<and> rs_State (fst (PriceResource_Delete sc req_State_Get resp)) = rs_State resp)"
proof -
  let ?d = "ErrorDiagnostic ''Client Error''
             ''Stripe API does not support deleting prices. Please archive the price instead.''"
  let ?ds = "Append (rs_Diagnostics resp) (fst req_State_Get)"
  have calls: "snd (PriceResource_Delete sc req_State_Get resp) = []"
    by (simp add: PriceResource_Delete_def Let_def case_prod_beta)
  have mem: "?d \<in> set (Append ?ds [?d])"
    by (rule Append_adds) simp
  have err: "HasError (Append ?ds [?d])"
    unfolding HasError_iff using mem by (intro bexI [of _ ?d]) simp_all
  have eq: "fst (PriceResource_Delete sc req_State_Get resp)
              = resp\<lparr>rs_Diagnostics := Append ?ds [?d]\<rparr>" if "\<not> HasError ?ds"
    using that
    by (simp add: PriceResource_Delete_def AddError_def price_delete_message_def Let_def
        case_prod_beta del: Append.simps)
  show ?thesis
    using calls mem err eq by (simp del: Append.simps)
qed

theorem price_delete_is_refused_witness:
  "PriceResource_Delete sc_unreachable ([], PriceResourceModel_zero\<lparr>prm_Id := StringValue ''price_1''\<rparr>)
      \<lparr>rs_Diagnostics = [], rs_State = None\<rparr>
   = (\<lparr>rs_Diagnostics = [ErrorDiagnostic ''Client Error''
         ''Stripe API does not support deleting prices. Please archive the price instead.''],
       rs_State = None\<rparr>, [])"
  using price_delete_is_refused
      [of sc_unreachable "([], PriceResourceModel_zero\<lparr>prm_Id := StringValue ''price_1''\<rparr>)"
          "\<lparr>rs_Diagnostics = [], rs_State = None\<rparr>"]
  by (simp add: HasError_def prod_eq_iff)

subsection \<open>The metadata loops\<close>

lemma entry_None: "entry None k = None"
  by (simp add: entry_def)

lemma entry_AddMetadata: "entry (AddMetadata md k v) k' = (if k' = k then Some v else entry md k')"
  by (simp add: entry_def AddMetadata_def split: option.splits)

lemma entry_add_plan_metadata:
  "distinct (map fst xs) \<Longrightarrow>
   entry (add_plan_metadata xs md) k =
     (case map_of xs k of Some v \<Rightarrow> Some (ValueString v) | None \<Rightarrow> entry md k)"
proof (induction xs arbitrary: md)
  case Nil
  then show ?case by (simp add: add_plan_metadata_def)
next
  case (Cons a xs)
  obtain ka va where a: "a = (ka, va)" by (cases a)
  from Cons.prems a have notin: "ka \<notin> fst ` set xs" and dist: "distinct (map fst xs)"
    by auto
  have none: "map_of xs ka = None"
    using notin by (simp add: map_of_eq_None_iff)
  have step: "add_plan_metadata (a # xs) md
                = add_plan_metadata xs (AddMetadata md ka (ValueString va))"
    by (simp add: add_plan_metadata_def a)
  show ?case
    unfolding step Cons.IH [OF dist]
    by (simp add: a entry_AddMetadata none split: option.splits)
qed

lemma entry_clear_state_metadata:
  "entry (clear_state_metadata plan st md) k =
     (if k \<in> fst ` set st \<and> map_of plan k = None then Some [] else entry md k)"
proof (induction st arbitrary: md)
  case Nil
  then show ?case by (simp add: clear_state_metadata_def)
next
  case (Cons a st)
  obtain ka va where a: "a = (ka, va)" by (cases a)
  have step: "clear_state_metadata plan (a # st) md
                = clear_state_metadata plan st
                    (if map_of plan ka = None then AddMetadata md ka [] else md)"
    by (simp add: clear_state_metadata_def a)
  show ?case
    unfolding step Cons.IH
    by (auto simp: a entry_AddMetadata)
qed

lemma add_plan_metadata_None:
  "add_plan_metadata xs md = None \<longleftrightarrow> xs = [] \<and> md = None"
proof (induction xs arbitrary: md)
  case Nil
  then show ?case by (simp add: add_plan_metadata_def)
next
  case (Cons a xs)
  obtain ka va where a: "a = (ka, va)" by (cases a)
  have step: "add_plan_metadata (a # xs) md
                = add_plan_metadata xs (AddMetadata md ka (ValueString va))"
    by (simp add: add_plan_metadata_def a)
  show ?case unfolding step Cons.IH by (simp add: AddMetadata_def)
qed

lemma clear_state_metadata_None:
  "clear_state_metadata plan st md = None \<longleftrightarrow>
     md = None \<and> (\<forall>k \<in> fst ` set st. map_of plan k \<noteq> None)"
proof (induction st arbitrary: md)
  case Nil
  then show ?case by (simp add: clear_state_metadata_def)
next
  case (Cons a st)
  obtain ka va where a: "a = (ka, va)" by (cases a)
  have step: "clear_state_metadata plan (a # st) md
                = clear_state_metadata plan st
                    (if map_of plan ka = None then AddMetadata md ka [] else md)"
    by (simp add: clear_state_metadata_def a)
  show ?case unfolding step Cons.IH by (auto simp: a AddMetadata_def)
qed

lemma entry_diff_metadata:
  assumes "distinct (map fst (Map_Elements plan_md))"
  shows "entry (diff_metadata state_md plan_md None) k =
     (case map_of (Map_Elements plan_md) k of
        Some v \<Rightarrow> Some (ValueString v)
      | None \<Rightarrow> if k \<in> fst ` set (Map_Elements state_md) then Some [] else None)"
proof -
  have none: "map_of (Map_Elements plan_md) k = None \<longleftrightarrow> k \<notin> fst ` set (Map_Elements plan_md)"
    by (simp add: map_of_eq_None_iff)
  show ?thesis
    using assms
    by (cases "map_of (Map_Elements plan_md) k")
      (simp_all add: diff_metadata_def Let_def entry_clear_state_metadata
        entry_add_plan_metadata entry_None)
qed

lemma diff_metadata_None:
  "diff_metadata state_md plan_md None = None \<longleftrightarrow>
     Map_Elements plan_md = [] \<and> Map_Elements state_md = []"
proof (cases "Map_Elements plan_md = []")
  case True
  show ?thesis
    by (cases "Map_Elements state_md")
      (auto simp: diff_metadata_def Let_def clear_state_metadata_None add_plan_metadata_None True)
next
  case False
  then show ?thesis
    by (simp add: diff_metadata_def Let_def clear_state_metadata_None add_plan_metadata_None)
qed

lemma diff_metadata_emits:
  assumes "distinct (map fst (Map_Elements plan_md))"
  shows "(\<forall>(k, v) \<in> set (Map_Elements plan_md).
            entry (diff_metadata state_md plan_md None) k = Some (ValueString v))
       \<and> (\<forall>(k, v) \<in> set (Map_Elements state_md).
            k \<notin> fst ` set (Map_Elements plan_md)
            \<longrightarrow> entry (diff_metadata state_md plan_md None) k = Some [])
       \<and> (\<forall>k. k \<notin> fst ` set (Map_Elements plan_md) \<and> k \<notin> fst ` set (Map_Elements state_md)
            \<longrightarrow> entry (diff_metadata state_md plan_md None) k = None)"
proof (intro conjI)
  show "\<forall>(k, v) \<in> set (Map_Elements plan_md).
          entry (diff_metadata state_md plan_md None) k = Some (ValueString v)"
    using assms by (auto simp: entry_diff_metadata [OF assms])
  show "\<forall>(k, v) \<in> set (Map_Elements state_md).
          k \<notin> fst ` set (Map_Elements plan_md)
          \<longrightarrow> entry (diff_metadata state_md plan_md None) k = Some []"
  proof (clarify)
    fix k v
    assume kv: "(k, v) \<in> set (Map_Elements state_md)"
      and notin: "k \<notin> fst ` set (Map_Elements plan_md)"
    have "map_of (Map_Elements plan_md) k = None"
      using notin by (simp add: map_of_eq_None_iff)
    moreover have "k \<in> fst ` set (Map_Elements state_md)"
      using kv by force
    ultimately show "entry (diff_metadata state_md plan_md None) k = Some []"
      by (simp add: entry_diff_metadata [OF assms])
  qed
  show "\<forall>k. k \<notin> fst ` set (Map_Elements plan_md) \<and> k \<notin> fst ` set (Map_Elements state_md)
          \<longrightarrow> entry (diff_metadata state_md plan_md None) k = None"
  proof (clarify)
    fix k
    assume "k \<notin> fst ` set (Map_Elements plan_md)" and st: "k \<notin> fst ` set (Map_Elements state_md)"
    then have "map_of (Map_Elements plan_md) k = None"
      by (simp add: map_of_eq_None_iff)
    then show "entry (diff_metadata state_md plan_md None) k = None"
      using st by (simp add: entry_diff_metadata [OF assms])
  qed
qed

subsection \<open>The fields of the update parameters\<close>

text \<open>
  Each builder is a chain of conditional assignments. The lemmas below read one field off
  the chain: the selector is moved under the \<open>let\<close>s first, so that the chain is resolved
  from its last assignment backwards.
\<close>

lemma sel_Let: "f (Let e g) = Let e (\<lambda>x. f (g x))"
  by (simp add: Let_def)

lemma fold_currency_update_step_fields:
  "cp_ID (fold (currency_update_step st) xs params) = cp_ID params"
  "cp_AmountOff (fold (currency_update_step st) xs params) = cp_AmountOff params"
  "cp_AppliesTo (fold (currency_update_step st) xs params) = cp_AppliesTo params"
  "cp_Currency (fold (currency_update_step st) xs params) = cp_Currency params"
  "cp_Duration (fold (currency_update_step st) xs params) = cp_Duration params"
  "cp_DurationInMonths (fold (currency_update_step st) xs params) = cp_DurationInMonths params"
  "cp_MaxRedemptions (fold (currency_update_step st) xs params) = cp_MaxRedemptions params"
  "cp_Metadata (fold (currency_update_step st) xs params) = cp_Metadata params"
  "cp_Name (fold (currency_update_step st) xs params) = cp_Name params"
  "cp_PercentOff (fold (currency_update_step st) xs params) = cp_PercentOff params"
  "cp_RedeemBy (fold (currency_update_step st) xs params) = cp_RedeemBy params"
  "cp_Expand (fold (currency_update_step st) xs params) = cp_Expand params"
  by (induction xs arbitrary: params; simp add: currency_update_step_def case_prod_beta)+

lemma WebhookEndpointResource_buildUpdateParams_fields:
  "wp_APIVersion (WebhookEndpointResource_buildUpdateParams state plan) =
     None"
  "wp_Description (WebhookEndpointResource_buildUpdateParams state plan) =
     (if \<not> String_Equal (wem_Description plan) (wem_Description state)
      then (if String_IsNull (wem_Description plan) then Some []
            else ValueStringPointer (wem_Description plan))
      else None)"
  "wp_Disabled (WebhookEndpointResource_buildUpdateParams state plan) =
     (if \<not> Bool_Equal (wem_Disabled plan) (wem_Disabled state) then ValueBoolPointer (wem_Disabled plan) else None)"
  "wp_EnabledEvents (WebhookEndpointResource_buildUpdateParams state plan) =
     (if \<not> List_Equal (wem_EnabledEvents plan) (wem_EnabledEvents state) then convertListToStringPtrs (wem_EnabledEvents plan) else None)"
  "wp_Metadata (WebhookEndpointResource_buildUpdateParams state plan) =
     (if \<not> Map_Equal (wem_Metadata plan) (wem_Metadata state)
      then diff_metadata (wem_Metadata state) (wem_Metadata plan) None else None)"
  "wp_URL (WebhookEndpointResource_buildUpdateParams state plan) =
     (if \<not> String_Equal (wem_URL plan) (wem_URL state) then ValueStringPointer (wem_URL plan) else None)"
  unfolding WebhookEndpointResource_buildUpdateParams_def
  by (simp only: sel_Let [of wp_APIVersion] sel_Let [of wp_Description] sel_Let [of wp_Disabled] sel_Let [of wp_EnabledEvents] sel_Let [of wp_Metadata] sel_Let [of wp_URL],
      simp add: Let_def WebhookEndpointParams_zero_def 
        if_distrib [of wp_APIVersion] if_distrib [of wp_Description] if_distrib [of wp_Disabled] if_distrib [of wp_EnabledEvents] if_distrib [of wp_Metadata] if_distrib [of wp_URL]
        cong: if_cong)+

lemma ProductResource_buildUpdateParams_fields:
  "pp_ID (ProductResource_buildUpdateParams state plan) =
     None"
  "pp_Active (ProductResource_buildUpdateParams state plan) =
     (if \<not> Bool_Equal (pm_Active plan) (pm_Active state) then ValueBoolPointer (pm_Active plan) else None)"
  "pp_DefaultPrice (ProductResource_buildUpdateParams state plan) =
     (if \<not> String_Equal (pm_DefaultPrice plan) (pm_DefaultPrice state) then EmptyStringIfNull (pm_DefaultPrice plan) else None)"
  "pp_Description (ProductResource_buildUpdateParams state plan) =
     (if \<not> String_Equal (pm_Description plan) (pm_Description state) then EmptyStringIfNull (pm_Description plan) else None)"
  "pp_Images (ProductResource_buildUpdateParams state plan) =
     (if \<not> List_Equal (pm_Images plan) (pm_Images state) then convertListToStringPtrs (pm_Images plan) else None)"
  "pp_MarketingFeatures (ProductResource_buildUpdateParams state plan) =
     (if \<not> List_Equal (pm_MarketingFeatures plan) (pm_MarketingFeatures state) then Some (marketing_feature_params (pm_MarketingFeatures plan)) else None)"
  "pp_Metadata (ProductResource_buildUpdateParams state plan) =
     (if \<not> Map_Equal (pm_Metadata plan) (pm_Metadata state)
      then diff_metadata (pm_Metadata state) (pm_Metadata plan) None else None)"
  "pp_Name (ProductResource_buildUpdateParams state plan) =
     (if \<not> String_Equal (pm_Name plan) (pm_Name state) then ValueStringPointer (pm_Name plan) else None)"
  "pp_PackageDimensions (ProductResource_buildUpdateParams state plan) =
     (if \<not> Object_Equal (pm_PackageDimensions plan) (pm_PackageDimensions state)
      then (if Object_IsNull (pm_PackageDimensions plan)
            then Some \<lparr>pdp_Height = Some 0, pdp_Length = Some 0, pdp_Weight = Some 0,
                   pdp_Width = Some 0\<rparr>
            else Some (dimensions_params
                   (Object_As (pm_PackageDimensions plan)
                      ProductPackageDimensionsResourceModel_zero)))
      else None)"
  "pp_Shippable (ProductResource_buildUpdateParams state plan) =
     (if \<not> Bool_Equal (pm_Shippable plan) (pm_Shippable state) then ValueBoolPointer (pm_Shippable plan) else None)"
  "pp_StatementDescriptor (ProductResource_buildUpdateParams state plan) =
     (if \<not> String_Equal (pm_StatementDescriptor plan) (pm_StatementDescriptor state) then EmptyStringIfNull (pm_StatementDescriptor plan) else None)"
  "pp_TaxCode (ProductResource_buildUpdateParams state plan) =
     (if \<not> String_Equal (pm_TaxCode plan) (pm_TaxCode state) then EmptyStringIfNull (pm_TaxCode plan) else None)"
  "pp_UnitLabel (ProductResource_buildUpdateParams state plan) =
     (if \<not> String_Equal (pm_UnitLabel plan) (pm_UnitLabel state) then EmptyStringIfNull (pm_UnitLabel plan) else None)"
  "pp_URL (ProductResource_buildUpdateParams state plan) =
     (if \<not> String_Equal (pm_URL plan) (pm_URL state) then EmptyStringIfNull (pm_URL plan) else None)"
  unfolding ProductResource_buildUpdateParams_def
  by (simp only: sel_Let [of pp_ID] sel_Let [of pp_Active] sel_Let [of pp_DefaultPrice] sel_Let [of pp_Description] sel_Let [of pp_Images] sel_Let [of pp_MarketingFeatures] sel_Let [of pp_Metadata] sel_Let [of pp_Name] sel_Let [of pp_PackageDimensions] sel_Let [of pp_Shippable] sel_Let [of pp_StatementDescriptor] sel_Let [of pp_TaxCode] sel_Let [of pp_UnitLabel] sel_Let [of pp_URL],
      simp add: Let_def ProductParams_zero_def 
        if_distrib [of pp_ID] if_distrib [of pp_Active] if_distrib [of pp_DefaultPrice] if_distrib [of pp_Description] if_distrib [of pp_Images] if_distrib [of pp_MarketingFeatures] if_distrib [of pp_Metadata] if_distrib [of pp_Name] if_distrib [of pp_PackageDimensions] if_distrib [of pp_Shippable] if_distrib [of pp_StatementDescriptor] if_distrib [of pp_TaxCode] if_distrib [of pp_UnitLabel] if_distrib [of pp_URL]
        cong: if_cong)+

text \<open>
  The coupon update builder returns unless the state's or the plan's currency options are
  a map without element type. The models a handler decodes from a request carry their
  types; for those the builder returns, and its fields are read off as above.
\<close>

lemma Map_ElementsAs_typed: "m \<noteq> MapZero \<Longrightarrow> Map_ElementsAs m = Some (Map_Elements m)"
  by (cases m) simp_all

lemma Map_ElementsAs_guarded: "\<not> Map_IsNull m \<Longrightarrow> Map_ElementsAs m = Some (Map_Elements m)"
  by (cases m) simp_all

lemma CouponResource_buildUpdateParams_panics:
  "CouponResource_buildUpdateParams state plan = None \<longleftrightarrow>
     cm_CurrencyOptions state = MapZero \<or> cm_CurrencyOptions plan = MapZero"
  by (cases "cm_CurrencyOptions state"; cases "cm_CurrencyOptions plan")
    (simp_all add: CouponResource_buildUpdateParams_def Let_def)

lemma CouponResource_buildUpdateParams_returns:
  assumes "cm_CurrencyOptions state \<noteq> MapZero" and "cm_CurrencyOptions plan \<noteq> MapZero"
  shows "CouponResource_buildUpdateParams state plan
           = Some (the (CouponResource_buildUpdateParams state plan))"
  using assms CouponResource_buildUpdateParams_panics [of state plan] by auto

lemma CouponResource_buildUpdateParams_fields:
  assumes "cm_CurrencyOptions state \<noteq> MapZero" and "cm_CurrencyOptions plan \<noteq> MapZero"
  shows "cp_ID (the (CouponResource_buildUpdateParams state plan)) = None"
    and "cp_AmountOff (the (CouponResource_buildUpdateParams state plan)) = None"
    and "cp_AppliesTo (the (CouponResource_buildUpdateParams state plan)) = None"
    and "cp_Currency (the (CouponResource_buildUpdateParams state plan)) = None"
    and "cp_CurrencyOptions (the (CouponResource_buildUpdateParams state plan)) =
     (if \<not> Map_Equal (cm_CurrencyOptions plan) (cm_CurrencyOptions state)
      then cp_CurrencyOptions
             (fold (currency_update_step (Map_Elements (cm_CurrencyOptions state)))
                (Map_Elements (cm_CurrencyOptions plan))
                (CouponParams_zero\<lparr>cp_CurrencyOptions := Some Map.empty\<rparr>))
      else None)"
    and "cp_Duration (the (CouponResource_buildUpdateParams state plan)) = None"
    and "cp_DurationInMonths (the (CouponResource_buildUpdateParams state plan)) = None"
    and "cp_MaxRedemptions (the (CouponResource_buildUpdateParams state plan)) = None"
    and "cp_Metadata (the (CouponResource_buildUpdateParams state plan)) =
     (if \<not> Map_Equal (cm_Metadata plan) (cm_Metadata state)
      then diff_metadata (cm_Metadata state) (cm_Metadata plan) None else None)"
    and "cp_Name (the (CouponResource_buildUpdateParams state plan)) =
     (if \<not> String_Equal (cm_Name plan) (cm_Name state)
      then EmptyStringIfNull (cm_Name plan) else None)"
    and "cp_PercentOff (the (CouponResource_buildUpdateParams state plan)) = None"
    and "cp_RedeemBy (the (CouponResource_buildUpdateParams state plan)) = None"
    and "cp_Expand (the (CouponResource_buildUpdateParams state plan)) = []"
  using assms
  by (simp_all add: CouponResource_buildUpdateParams_def Let_def Map_ElementsAs_typed
      CouponParams_zero_def fold_currency_update_step_fields)

subsection \<open>Equality of a value with itself\<close>

lemma entries_Equal_refl: "distinct (map fst xs) \<Longrightarrow> entries_Equal xs xs"
  by (auto simp: entries_Equal_def list_all_iff)

lemma Map_Equal_refl:
  "m \<noteq> MapZero \<Longrightarrow> distinct (map fst (Map_Elements m)) \<Longrightarrow> Map_Equal m m"
  by (cases m) (simp_all add: entries_Equal_refl)

lemma List_Equal_refl: "l \<noteq> ListZero \<Longrightarrow> List_Equal l l"
  by (cases l) simp_all

lemma same_metadata_no_diff:
  assumes "distinct (map fst (Map_Elements m))"
  shows "(if \<not> Map_Equal m m then diff_metadata m m None else None) = None"
proof (cases "m = MapZero")
  case True
  then show ?thesis by (simp add: diff_metadata_None)
next
  case False
  then show ?thesis using assms by (simp add: Map_Equal_refl)
qed

lemma same_list_no_replacement:
  "(if \<not> List_Equal l l then convertListToStringPtrs l else None) = None"
  by (cases l) (simp_all add: convertListToStringPtrs_def)

subsection \<open>The metadata diff\<close>

text \<open>
  C6. In each of the three resources, when the plan's metadata differs from the state's
  metadata, the metadata of the update parameters holds every key of the plan with the
  string of its plan value, every key of the state that the plan lacks with the empty
  string, and no other key. (\<open>ValueString\<close> of a plan entry is its value; an entry that is
  null or unknown reads as the empty string.) The keys of a Go map are distinct. The coupon
  builder reads the currency options before the metadata: the coupon's state and plan are
  models as the framework decodes them, their currency options carrying the element type,
  and the builder then returns.
\<close>

theorem metadata_diff_sets_plan_and_clears_removed:
  "(\<not> Map_Equal (wem_Metadata wplan) (wem_Metadata wstate)
      \<and> distinct (map fst (Map_Elements (wem_Metadata wplan)))
    \<longrightarrow> (\<forall>(k, v) \<in> set (Map_Elements (wem_Metadata wplan)).
            entry (wp_Metadata (WebhookEndpointResource_buildUpdateParams wstate wplan)) k
              = Some (ValueString v))
      \<and> (\<forall>(k, v) \<in> set (Map_Elements (wem_Metadata wstate)).
            k \<notin> fst ` set (Map_Elements (wem_Metadata wplan))
            \<longrightarrow> entry (wp_Metadata (WebhookEndpointResource_buildUpdateParams wstate wplan)) k
                  = Some [])
      \<and> (\<forall>k. k \<notin> fst ` set (Map_Elements (wem_Metadata wplan))
              \<and> k \<notin> fst ` set (Map_Elements (wem_Metadata wstate))
            \<longrightarrow> entry (wp_Metadata (WebhookEndpointResource_buildUpdateParams wstate wplan)) k
                  = None))
   \<and> (\<not> Map_Equal (pm_Metadata pplan) (pm_Metadata pstate)
      \<and> distinct (map fst (Map_Elements (pm_Metadata pplan)))
    \<longrightarrow> (\<forall>(k, v) \<in> set (Map_Elements (pm_Metadata pplan)).
            entry (pp_Metadata (ProductResource_buildUpdateParams pstate pplan)) k
              = Some (ValueString v))
      \<and> (\<forall>(k, v) \<in> set (Map_Elements (pm_Metadata pstate)).
            k \<notin> fst ` set (Map_Elements (pm_Metadata pplan))
            \<longrightarrow> entry (pp_Metadata (ProductResource_buildUpdateParams pstate pplan)) k = Some [])
      \<and> (\<forall>k. k \<notin> fst ` set (Map_Elements (pm_Metadata pplan))
              \<and> k \<notin> fst ` set (Map_Elements (pm_Metadata pstate))
            \<longrightarrow> entry (pp_Metadata (ProductResource_buildUpdateParams pstate pplan)) k = None))
   \<and> (cm_CurrencyOptions cstate \<noteq> MapZero \<and> cm_CurrencyOptions cplan \<noteq> MapZero
      \<and> \<not> Map_Equal (cm_Metadata cplan) (cm_Metadata cstate)
      \<and> distinct (map fst (Map_Elements (cm_Metadata cplan)))
    \<longrightarrow> (\<exists>params. CouponResource_buildUpdateParams cstate cplan = Some params
          \<and> (\<forall>(k, v) \<in> set (Map_Elements (cm_Metadata cplan)).
                entry (cp_Metadata params) k = Some (ValueString v))
          \<and> (\<forall>(k, v) \<in> set (Map_Elements (cm_Metadata cstate)).
                k \<notin> fst ` set (Map_Elements (cm_Metadata cplan))
                \<longrightarrow> entry (cp_Metadata params) k = Some [])
          \<and> (\<forall>k. k \<notin> fst ` set (Map_Elements (cm_Metadata cplan))
                  \<and> k \<notin> fst ` set (Map_Elements (cm_Metadata cstate))
                \<longrightarrow> entry (cp_Metadata params) k = None)))"
proof ((rule conjI [OF _ conjI]); rule impI)
  assume a: "\<not> Map_Equal (wem_Metadata wplan) (wem_Metadata wstate)
            \<and> distinct (map fst (Map_Elements (wem_Metadata wplan)))"
  have eq: "wp_Metadata (WebhookEndpointResource_buildUpdateParams wstate wplan) = diff_metadata (wem_Metadata wstate) (wem_Metadata wplan) None"
    using a by (simp add: WebhookEndpointResource_buildUpdateParams_fields)
  show "(\<forall>(k, v) \<in> set (Map_Elements (wem_Metadata wplan)).
            entry (wp_Metadata (WebhookEndpointResource_buildUpdateParams wstate wplan)) k
              = Some (ValueString v))
      \<and> (\<forall>(k, v) \<in> set (Map_Elements (wem_Metadata wstate)).
            k \<notin> fst ` set (Map_Elements (wem_Metadata wplan))
            \<longrightarrow> entry (wp_Metadata (WebhookEndpointResource_buildUpdateParams wstate wplan)) k
                  = Some [])
      \<and> (\<forall>k. k \<notin> fst ` set (Map_Elements (wem_Metadata wplan))
              \<and> k \<notin> fst ` set (Map_Elements (wem_Metadata wstate))
            \<longrightarrow> entry (wp_Metadata (WebhookEndpointResource_buildUpdateParams wstate wplan)) k
                  = None)"
    using diff_metadata_emits [OF a [THEN conjunct2], of "wem_Metadata wstate"]
    by (simp only: eq)
next
  assume a: "\<not> Map_Equal (pm_Metadata pplan) (pm_Metadata pstate)
            \<and> distinct (map fst (Map_Elements (pm_Metadata pplan)))"
  have eq: "pp_Metadata (ProductResource_buildUpdateParams pstate pplan) = diff_metadata (pm_Metadata pstate) (pm_Metadata pplan) None"
    using a by (simp add: ProductResource_buildUpdateParams_fields)
  show "(\<forall>(k, v) \<in> set (Map_Elements (pm_Metadata pplan)).
            entry (pp_Metadata (ProductResource_buildUpdateParams pstate pplan)) k
              = Some (ValueString v))
      \<and> (\<forall>(k, v) \<in> set (Map_Elements (pm_Metadata pstate)).
            k \<notin> fst ` set (Map_Elements (pm_Metadata pplan))
            \<longrightarrow> entry (pp_Metadata (ProductResource_buildUpdateParams pstate pplan)) k = Some [])
      \<and> (\<forall>k. k \<notin> fst ` set (Map_Elements (pm_Metadata pplan))
              \<and> k \<notin> fst ` set (Map_Elements (pm_Metadata pstate))
            \<longrightarrow> entry (pp_Metadata (ProductResource_buildUpdateParams pstate pplan)) k = None)"
    using diff_metadata_emits [OF a [THEN conjunct2], of "pm_Metadata pstate"]
    by (simp only: eq)
next
  assume a: "cm_CurrencyOptions cstate \<noteq> MapZero \<and> cm_CurrencyOptions cplan \<noteq> MapZero
            \<and> \<not> Map_Equal (cm_Metadata cplan) (cm_Metadata cstate)
            \<and> distinct (map fst (Map_Elements (cm_Metadata cplan)))"
  then have typed: "cm_CurrencyOptions cstate \<noteq> MapZero" "cm_CurrencyOptions cplan \<noteq> MapZero"
    and differ: "\<not> Map_Equal (cm_Metadata cplan) (cm_Metadata cstate)"
    and dist: "distinct (map fst (Map_Elements (cm_Metadata cplan)))"
    by simp_all
  let ?b = "the (CouponResource_buildUpdateParams cstate cplan)"
  have ret: "CouponResource_buildUpdateParams cstate cplan = Some ?b"
    by (rule CouponResource_buildUpdateParams_returns [OF typed])
  have eq: "cp_Metadata ?b = diff_metadata (cm_Metadata cstate) (cm_Metadata cplan) None"
    using differ by (simp add: CouponResource_buildUpdateParams_fields [OF typed])
  have body: "(\<forall>(k, v) \<in> set (Map_Elements (cm_Metadata cplan)).
            entry (cp_Metadata ?b) k = Some (ValueString v))
      \<and> (\<forall>(k, v) \<in> set (Map_Elements (cm_Metadata cstate)).
            k \<notin> fst ` set (Map_Elements (cm_Metadata cplan))
            \<longrightarrow> entry (cp_Metadata ?b) k = Some [])
      \<and> (\<forall>k. k \<notin> fst ` set (Map_Elements (cm_Metadata cplan))
              \<and> k \<notin> fst ` set (Map_Elements (cm_Metadata cstate))
            \<longrightarrow> entry (cp_Metadata ?b) k = None)"
    using diff_metadata_emits [OF dist, of "cm_Metadata cstate"]
    by (simp only: eq)
  show "\<exists>params. CouponResource_buildUpdateParams cstate cplan = Some params
          \<and> (\<forall>(k, v) \<in> set (Map_Elements (cm_Metadata cplan)).
                entry (cp_Metadata params) k = Some (ValueString v))
          \<and> (\<forall>(k, v) \<in> set (Map_Elements (cm_Metadata cstate)).
                k \<notin> fst ` set (Map_Elements (cm_Metadata cplan))
                \<longrightarrow> entry (cp_Metadata params) k = Some [])
          \<and> (\<forall>k. k \<notin> fst ` set (Map_Elements (cm_Metadata cplan))
                  \<and> k \<notin> fst ` set (Map_Elements (cm_Metadata cstate))
                \<longrightarrow> entry (cp_Metadata params) k = None)"
    by (rule exI [of _ ?b]) (rule conjI [OF ret body])
qed

theorem metadata_diff_sets_plan_and_clears_removed_witness:
  "\<exists>params. CouponResource_buildUpdateParams
      (CouponResourceModel_null\<lparr>cm_Metadata :=
         MapValue StringType [(''meta1'', StringValue ''value1'')]\<rparr>)
      (CouponResourceModel_null\<lparr>cm_Metadata :=
         MapValue StringType [(''meta2'', StringValue ''value2'')]\<rparr>) = Some params
     \<and> entry (cp_Metadata params) ''meta1'' = Some []
     \<and> entry (cp_Metadata params) ''meta2'' = Some ''value2''
     \<and> entry (cp_Metadata params) ''meta3'' = None"
proof -
  let ?S = "CouponResourceModel_null\<lparr>cm_Metadata :=
              MapValue StringType [(''meta1'', StringValue ''value1'')]\<rparr>"
  let ?P = "CouponResourceModel_null\<lparr>cm_Metadata :=
              MapValue StringType [(''meta2'', StringValue ''value2'')]\<rparr>"
  have hyp: "cm_CurrencyOptions ?S \<noteq> MapZero \<and> cm_CurrencyOptions ?P \<noteq> MapZero
               \<and> \<not> Map_Equal (cm_Metadata ?P) (cm_Metadata ?S)
               \<and> distinct (map fst (Map_Elements (cm_Metadata ?P)))"
    by (simp add: entries_Equal_def CouponResourceModel_null_def)
  from metadata_diff_sets_plan_and_clears_removed
         [where cstate = ?S and cplan = ?P, THEN conjunct2, THEN conjunct2, THEN mp, OF hyp]
  obtain params where ret: "CouponResource_buildUpdateParams ?S ?P = Some params"
    and plan: "\<forall>(k, v) \<in> set (Map_Elements (cm_Metadata ?P)).
                 entry (cp_Metadata params) k = Some (ValueString v)"
    and removed: "\<forall>(k, v) \<in> set (Map_Elements (cm_Metadata ?S)).
                 k \<notin> fst ` set (Map_Elements (cm_Metadata ?P))
                 \<longrightarrow> entry (cp_Metadata params) k = Some []"
    and other: "\<forall>k. k \<notin> fst ` set (Map_Elements (cm_Metadata ?P))
                   \<and> k \<notin> fst ` set (Map_Elements (cm_Metadata ?S))
                 \<longrightarrow> entry (cp_Metadata params) k = None"
    by blast
  have a: "entry (cp_Metadata params) ''meta2'' = Some ''value2''"
    using plan by simp
  have b: "entry (cp_Metadata params) ''meta1'' = Some []"
    using removed by simp
  have c: "entry (cp_Metadata params) ''meta3'' = None"
    using other [THEN spec, of "''meta3''"] by simp
  show ?thesis using ret a b c by blast
qed

text \<open>The example of the claim, computed: the metadata is exactly the two entries.\<close>

lemma metadata_diff_example:
  "map_option cp_Metadata (CouponResource_buildUpdateParams
      (CouponResourceModel_null\<lparr>cm_Metadata :=
         MapValue StringType [(''meta1'', StringValue ''value1'')]\<rparr>)
      (CouponResourceModel_null\<lparr>cm_Metadata :=
         MapValue StringType [(''meta2'', StringValue ''value2'')]\<rparr>))
   = Some (Some [''meta1'' \<mapsto> [], ''meta2'' \<mapsto> ''value2''])"
proof -
  let ?S = "CouponResourceModel_null\<lparr>cm_Metadata :=
              MapValue StringType [(''meta1'', StringValue ''value1'')]\<rparr>"
  let ?P = "CouponResourceModel_null\<lparr>cm_Metadata :=
              MapValue StringType [(''meta2'', StringValue ''value2'')]\<rparr>"
  have typed: "cm_CurrencyOptions ?S \<noteq> MapZero" "cm_CurrencyOptions ?P \<noteq> MapZero"
    by (simp_all add: CouponResourceModel_null_def)
  have "cp_Metadata (the (CouponResource_buildUpdateParams ?S ?P))
          = Some [''meta1'' \<mapsto> [], ''meta2'' \<mapsto> ''value2'']"
    by (auto simp: CouponResource_buildUpdateParams_fields [OF typed] entries_Equal_def
        diff_metadata_def add_plan_metadata_def clear_state_metadata_def AddMetadata_def
        fun_eq_iff)
  then show ?thesis
    by (subst CouponResource_buildUpdateParams_returns [OF typed]) simp
qed

subsection \<open>Clearing an optional string\<close>

lemma clear_string:
  "s = StringValue x \<Longrightarrow> p = StringNull \<Longrightarrow>
   (if \<not> String_Equal p s then EmptyStringIfNull p else None) = Some []"
  by (simp add: String_Equal_def EmptyStringIfNull_def)

lemma send_string:
  "p = StringValue y \<Longrightarrow> s \<noteq> StringValue y \<Longrightarrow>
   (if \<not> String_Equal p s then EmptyStringIfNull p else None) = Some y"
  by (simp add: String_Equal_def EmptyStringIfNull_def)

lemma clear_description:
  "s = StringValue x \<Longrightarrow> p = StringNull \<Longrightarrow>
   (if \<not> String_Equal p s
    then (if String_IsNull p then Some [] else ValueStringPointer p) else None) = Some []"
  by (simp add: String_Equal_def)

lemma send_description:
  "p = StringValue y \<Longrightarrow> s \<noteq> StringValue y \<Longrightarrow>
   (if \<not> String_Equal p s
    then (if String_IsNull p then Some [] else ValueStringPointer p) else None) = Some y"
  by (simp add: String_Equal_def)

lemma coupon_clear_name:
  assumes "cm_CurrencyOptions state \<noteq> MapZero" and "cm_CurrencyOptions plan \<noteq> MapZero"
    and "cm_Name state = StringValue x" and "cm_Name plan = StringNull"
  shows "\<exists>params. CouponResource_buildUpdateParams state plan = Some params
           \<and> cp_Name params = Some []"
proof -
  have "cp_Name (the (CouponResource_buildUpdateParams state plan)) = Some []"
    unfolding CouponResource_buildUpdateParams_fields [OF assms(1,2)]
    by (rule clear_string [OF assms(3,4)])
  with CouponResource_buildUpdateParams_returns [OF assms(1,2)] show ?thesis
    by blast
qed

lemma coupon_send_name:
  assumes "cm_CurrencyOptions state \<noteq> MapZero" and "cm_CurrencyOptions plan \<noteq> MapZero"
    and "cm_Name plan = StringValue y" and "cm_Name state \<noteq> StringValue y"
  shows "\<exists>params. CouponResource_buildUpdateParams state plan = Some params
           \<and> cp_Name params = Some y"
proof -
  have "cp_Name (the (CouponResource_buildUpdateParams state plan)) = Some y"
    unfolding CouponResource_buildUpdateParams_fields [OF assms(1,2)]
    by (rule send_string [OF assms(3,4)])
  with CouponResource_buildUpdateParams_returns [OF assms(1,2)] show ?thesis
    by blast
qed

text \<open>
  C7. For the optional strings the update builders diff (the webhook endpoint's
  \<open>description\<close>; the product's \<open>description\<close>, \<open>tax_code\<close>, \<open>unit_label\<close>, \<open>url\<close>,
  \<open>default_price\<close> and \<open>statement_descriptor\<close>; the coupon's \<open>name\<close>): when the state holds
  a value and the plan is null, the field of the parameters is a pointer to the empty
  string, not nil; when the plan holds a value that differs from the state, that value is
  sent. The coupon builder reads the currency options before the name: the coupon's state
  and plan are models as the framework decodes them, their currency options carrying the
  element type, and the builder then returns.
\<close>

theorem cleared_string_is_sent_as_empty_string:
  "(wem_Description wstate = StringValue x \<and> wem_Description wplan = StringNull
      \<longrightarrow> wp_Description (WebhookEndpointResource_buildUpdateParams wstate wplan) = Some [])
   \<and> (wem_Description wplan = StringValue y \<and> wem_Description wstate \<noteq> StringValue y
      \<longrightarrow> wp_Description (WebhookEndpointResource_buildUpdateParams wstate wplan) = Some y)
   \<and> (pm_Description pstate = StringValue x \<and> pm_Description pplan = StringNull
      \<longrightarrow> pp_Description (ProductResource_buildUpdateParams pstate pplan) = Some [])
   \<and> (pm_Description pplan = StringValue y \<and> pm_Description pstate \<noteq> StringValue y
      \<longrightarrow> pp_Description (ProductResource_buildUpdateParams pstate pplan) = Some y)
   \<and> (pm_TaxCode pstate = StringValue x \<and> pm_TaxCode pplan = StringNull
      \<longrightarrow> pp_TaxCode (ProductResource_buildUpdateParams pstate pplan) = Some [])
   \<and> (pm_TaxCode pplan = StringValue y \<and> pm_TaxCode pstate \<noteq> StringValue y
      \<longrightarrow> pp_TaxCode (ProductResource_buildUpdateParams pstate pplan) = Some y)
   \<and> (pm_UnitLabel pstate = StringValue x \<and> pm_UnitLabel pplan = StringNull
      \<longrightarrow> pp_UnitLabel (ProductResource_buildUpdateParams pstate pplan) = Some [])
   \<and> (pm_UnitLabel pplan = StringValue y \<and> pm_UnitLabel pstate \<noteq> StringValue y
      \<longrightarrow> pp_UnitLabel (ProductResource_buildUpdateParams pstate pplan) = Some y)
   \<and> (pm_URL pstate = StringValue x \<and> pm_URL pplan = StringNull
      \<longrightarrow> pp_URL (ProductResource_buildUpdateParams pstate pplan) = Some [])
   \<and> (pm_URL pplan = StringValue y \<and> pm_URL pstate \<noteq> StringValue y
      \<longrightarrow> pp_URL (ProductResource_buildUpdateParams pstate pplan) = Some y)
   \<and> (pm_DefaultPrice pstate = StringValue x \<and> pm_DefaultPrice pplan = StringNull
      \<longrightarrow> pp_DefaultPrice (ProductResource_buildUpdateParams pstate pplan) = Some [])
   \<and> (pm_DefaultPrice pplan = StringValue y \<and> pm_DefaultPrice pstate \<noteq> StringValue y
      \<longrightarrow> pp_DefaultPrice (ProductResource_buildUpdateParams pstate pplan) = Some y)
   \<and> (pm_StatementDescriptor pstate = StringValue x \<and> pm_StatementDescriptor pplan = StringNull
      \<longrightarrow> pp_StatementDescriptor (ProductResource_buildUpdateParams pstate pplan) = Some [])
   \<and> (pm_StatementDescriptor pplan = StringValue y \<and> pm_StatementDescriptor pstate \<noteq> StringValue y
      \<longrightarrow> pp_StatementDescriptor (ProductResource_buildUpdateParams pstate pplan) = Some y)
   \<and> (cm_CurrencyOptions cstate \<noteq> MapZero \<and> cm_CurrencyOptions cplan \<noteq> MapZero
      \<and> cm_Name cstate = StringValue x \<and> cm_Name cplan = StringNull
      \<longrightarrow> (\<exists>params. CouponResource_buildUpdateParams cstate cplan = Some params
            \<and> cp_Name params = Some []))
   \<and> (cm_CurrencyOptions cstate \<noteq> MapZero \<and> cm_CurrencyOptions cplan \<noteq> MapZero
      \<and> cm_Name cplan = StringValue y \<and> cm_Name cstate \<noteq> StringValue y
      \<longrightarrow> (\<exists>params. CouponResource_buildUpdateParams cstate cplan = Some params
            \<and> cp_Name params = Some y))"
  unfolding WebhookEndpointResource_buildUpdateParams_fields
    ProductResource_buildUpdateParams_fields
  by (intro conjI impI; elim conjE;
      ((rule clear_string, assumption, assumption)
       | (rule send_string, assumption, assumption)
       | (rule clear_description, assumption, assumption)
       | (rule send_description, assumption, assumption)
       | (rule coupon_clear_name, assumption, assumption, assumption, assumption)
       | (rule coupon_send_name, assumption, assumption, assumption, assumption)))

theorem cleared_string_is_sent_as_empty_string_witness:
  "wp_Description (WebhookEndpointResource_buildUpdateParams
      (WebhookEndpointResourceModel_zero\<lparr>wem_Description := StringValue ''x''\<rparr>)
      (WebhookEndpointResourceModel_zero\<lparr>wem_Description := StringNull\<rparr>)) = Some []
   \<and> (\<exists>params. CouponResource_buildUpdateParams
          (CouponResourceModel_null\<lparr>cm_Name := StringValue ''old_name''\<rparr>)
          (CouponResourceModel_null\<lparr>cm_Name := StringValue ''new_name''\<rparr>) = Some params
        \<and> cp_Name params = Some ''new_name'')
   \<and> (\<exists>params. CouponResource_buildUpdateParams
          (CouponResourceModel_null\<lparr>cm_Name := StringValue ''name''\<rparr>)
          (CouponResourceModel_null\<lparr>cm_Name := StringNull\<rparr>) = Some params
        \<and> cp_Name params = Some [])"
proof -
  have w: "wp_Description (WebhookEndpointResource_buildUpdateParams
      (WebhookEndpointResourceModel_zero\<lparr>wem_Description := StringValue ''x''\<rparr>)
      (WebhookEndpointResourceModel_zero\<lparr>wem_Description := StringNull\<rparr>)) = Some []"
    using cleared_string_is_sent_as_empty_string
      [where wstate = "WebhookEndpointResourceModel_zero\<lparr>wem_Description := StringValue ''x''\<rparr>"
         and wplan = "WebhookEndpointResourceModel_zero\<lparr>wem_Description := StringNull\<rparr>"
         and x = "''x''", THEN conjunct1]
    by simp
  have send: "\<exists>params. CouponResource_buildUpdateParams
          (CouponResourceModel_null\<lparr>cm_Name := StringValue ''old_name''\<rparr>)
          (CouponResourceModel_null\<lparr>cm_Name := StringValue ''new_name''\<rparr>) = Some params
        \<and> cp_Name params = Some ''new_name''"
    using cleared_string_is_sent_as_empty_string
      [where cstate = "CouponResourceModel_null\<lparr>cm_Name := StringValue ''old_name''\<rparr>"
         and cplan = "CouponResourceModel_null\<lparr>cm_Name := StringValue ''new_name''\<rparr>"
         and y = "''new_name''"]
    by (simp add: CouponResourceModel_null_def)
  have clear: "\<exists>params. CouponResource_buildUpdateParams
          (CouponResourceModel_null\<lparr>cm_Name := StringValue ''name''\<rparr>)
          (CouponResourceModel_null\<lparr>cm_Name := StringNull\<rparr>) = Some params
        \<and> cp_Name params = Some []"
    using cleared_string_is_sent_as_empty_string
      [where cstate = "CouponResourceModel_null\<lparr>cm_Name := StringValue ''name''\<rparr>"
         and cplan = "CouponResourceModel_null\<lparr>cm_Name := StringNull\<rparr>"
         and x = "''name''"]
    by (simp add: CouponResourceModel_null_def)
  show ?thesis using w send clear by blast
qed

subsection \<open>The diff of a state with itself\<close>

text \<open>
  C3, as stated, fails. The product model \<^verbatim>\<open>ProductResourceModel{Name: "Product 2"}\<close> of the
  repository's test "No fields updated" holds no unknown value. Its lists are Go zero
  values, without element type, and \<^verbatim>\<open>Equal\<close> of such a list with itself is false: the
  builder replaces the marketing features by an empty, non-nil list, which is what that test
  expects.
\<close>

theorem buildUpdateParams_same_state_counterexample:
  "ProductResourceModel_no_unknown (ProductResourceModel_zero\<lparr>pm_Name := StringValue ''Product 2''\<rparr>)
   \<and> pp_MarketingFeatures (ProductResource_buildUpdateParams
        (ProductResourceModel_zero\<lparr>pm_Name := StringValue ''Product 2''\<rparr>)
        (ProductResourceModel_zero\<lparr>pm_Name := StringValue ''Product 2''\<rparr>)) = Some []
   \<and> ProductResource_buildUpdateParams
        (ProductResourceModel_zero\<lparr>pm_Name := StringValue ''Product 2''\<rparr>)
        (ProductResourceModel_zero\<lparr>pm_Name := StringValue ''Product 2''\<rparr>) \<noteq> ProductParams_zero"
proof -
  let ?m = "ProductResourceModel_zero\<lparr>pm_Name := StringValue ''Product 2''\<rparr>"
  have a: "ProductResourceModel_no_unknown ?m"
    by (simp add: ProductResourceModel_no_unknown_def ProductResourceModel_zero_def
        dimensions_no_unknown_def)
  have b: "pp_MarketingFeatures (ProductResource_buildUpdateParams ?m ?m) = Some []"
    by (simp add: ProductResource_buildUpdateParams_fields ProductResourceModel_zero_def
        marketing_feature_params_def)
  have "pp_MarketingFeatures ProductParams_zero = None"
    by (simp add: ProductParams_zero_def)
  with b have c: "ProductResource_buildUpdateParams ?m ?m \<noteq> ProductParams_zero"
    by (metis option.distinct(1))
  show ?thesis using a b c by simp
qed

text \<open>
  The whole result for that test: only the marketing features are set, as the test expects.
\<close>

lemma product_no_fields_updated_test:
  "ProductResource_buildUpdateParams
      (ProductResourceModel_zero\<lparr>pm_Name := StringValue ''Product 2''\<rparr>)
      (ProductResourceModel_zero\<lparr>pm_Name := StringValue ''Product 2''\<rparr>)
   = ProductParams_zero\<lparr>pp_MarketingFeatures := Some []\<rparr>"
  by (intro ProductParams.equality)
    (simp_all add: ProductResource_buildUpdateParams_fields ProductResourceModel_zero_def
      ProductParams_zero_def marketing_feature_params_def String_Equal_def Bool_Equal_def
      Object_Equal_def convertListToStringPtrs_def diff_metadata_None)

text \<open>
  C3, amended. For a state model without unknown values whose list and map attributes
  carry their element type, as every model decoded from stored state does,
  \<^verbatim>\<open>buildUpdateParams(state, state)\<close> is the empty params struct: no pointer set, no metadata,
  no list, no nested params. Only two attributes need the element type: the product's
  marketing features and the coupon's currency options (without it, the coupon builder
  does not return at all). The theorem does not need the absence of unknown values. The
  keys of a Go map are distinct.
\<close>

theorem buildUpdateParams_same_state_is_empty:
  "(distinct (map fst (Map_Elements (wem_Metadata wstate)))
    \<longrightarrow> WebhookEndpointResource_buildUpdateParams wstate wstate = WebhookEndpointParams_zero)
   \<and> (pm_MarketingFeatures pstate \<noteq> ListZero
      \<and> distinct (map fst (Map_Elements (pm_Metadata pstate)))
    \<longrightarrow> ProductResource_buildUpdateParams pstate pstate = ProductParams_zero)
   \<and> (cm_CurrencyOptions cstate \<noteq> MapZero
      \<and> distinct (map fst (Map_Elements (cm_CurrencyOptions cstate)))
      \<and> distinct (map fst (Map_Elements (cm_Metadata cstate)))
    \<longrightarrow> CouponResource_buildUpdateParams cstate cstate = Some CouponParams_zero)"
proof ((rule conjI [OF _ conjI]); rule impI)
  assume "distinct (map fst (Map_Elements (wem_Metadata wstate)))"
  then show "WebhookEndpointResource_buildUpdateParams wstate wstate = WebhookEndpointParams_zero"
    by (intro WebhookEndpointParams.equality)
      (simp_all add: WebhookEndpointResource_buildUpdateParams_fields
        WebhookEndpointParams_zero_def String_Equal_def Bool_Equal_def same_metadata_no_diff
        same_list_no_replacement)
next
  assume "pm_MarketingFeatures pstate \<noteq> ListZero
            \<and> distinct (map fst (Map_Elements (pm_Metadata pstate)))"
  then show "ProductResource_buildUpdateParams pstate pstate = ProductParams_zero"
    by (intro ProductParams.equality)
      (simp_all add: ProductResource_buildUpdateParams_fields ProductParams_zero_def
        String_Equal_def Bool_Equal_def Object_Equal_def same_metadata_no_diff
        same_list_no_replacement List_Equal_refl)
next
  assume a: "cm_CurrencyOptions cstate \<noteq> MapZero
            \<and> distinct (map fst (Map_Elements (cm_CurrencyOptions cstate)))
            \<and> distinct (map fst (Map_Elements (cm_Metadata cstate)))"
  then have typed: "cm_CurrencyOptions cstate \<noteq> MapZero"
    by simp
  have "the (CouponResource_buildUpdateParams cstate cstate) = CouponParams_zero"
    using a
    by (intro CouponParams.equality)
      (simp_all add: CouponResource_buildUpdateParams_fields [OF typed typed]
        CouponParams_zero_def String_Equal_def same_metadata_no_diff Map_Equal_refl)
  then show "CouponResource_buildUpdateParams cstate cstate = Some CouponParams_zero"
    using CouponResource_buildUpdateParams_returns [OF typed typed] by simp
qed

theorem buildUpdateParams_same_state_is_empty_witness:
  "WebhookEndpointResource_buildUpdateParams
      (WebhookEndpointResourceModel_zero\<lparr>wem_Description := StringValue ''x'',
         wem_Metadata := MapValue StringType [(''foo'', StringValue ''bar'')]\<rparr>)
      (WebhookEndpointResourceModel_zero\<lparr>wem_Description := StringValue ''x'',
         wem_Metadata := MapValue StringType [(''foo'', StringValue ''bar'')]\<rparr>)
     = WebhookEndpointParams_zero
   \<and> ProductResource_buildUpdateParams
      (ProductResourceModel_zero\<lparr>pm_Name := StringValue ''Product 2'',
         pm_MarketingFeatures := ListNull StringType\<rparr>)
      (ProductResourceModel_zero\<lparr>pm_Name := StringValue ''Product 2'',
         pm_MarketingFeatures := ListNull StringType\<rparr>)
     = ProductParams_zero
   \<and> CouponResource_buildUpdateParams
      (CouponResourceModel_zero\<lparr>cm_Name := StringValue ''test_name'',
         cm_CurrencyOptions := MapNull (ObjectType CouponCurrencyOptionsModel_Types),
         cm_Metadata := MapNull StringType\<rparr>)
      (CouponResourceModel_zero\<lparr>cm_Name := StringValue ''test_name'',
         cm_CurrencyOptions := MapNull (ObjectType CouponCurrencyOptionsModel_Types),
         cm_Metadata := MapNull StringType\<rparr>)
     = Some CouponParams_zero"
  using buildUpdateParams_same_state_is_empty
      [of "WebhookEndpointResourceModel_zero\<lparr>wem_Description := StringValue ''x'',
             wem_Metadata := MapValue StringType [(''foo'', StringValue ''bar'')]\<rparr>"
          "ProductResourceModel_zero\<lparr>pm_Name := StringValue ''Product 2'',
             pm_MarketingFeatures := ListNull StringType\<rparr>"
          "CouponResourceModel_zero\<lparr>cm_Name := StringValue ''test_name'',
             cm_CurrencyOptions := MapNull (ObjectType CouponCurrencyOptionsModel_Types),
             cm_Metadata := MapNull StringType\<rparr>"]
  by (simp add: ProductResourceModel_zero_def)

subsection \<open>Currency options in the coupon update\<close>

lemma entry_Some: "entry (Some m) k = m k"
  by (simp add: entry_def)

lemma fold_currency_update_step_options:
  assumes "distinct (map fst xs)" and "cp_CurrencyOptions P = Some m0"
  shows "\<exists>m. cp_CurrencyOptions (fold (currency_update_step st) xs P) = Some m
           \<and> (\<forall>k. m k = (case map_of xs k of
                            Some v \<Rightarrow>
                              if map_of st k = None
                              then Some \<lparr>ccop_AmountOff = ValueInt64Pointer (ccom_AmountOff v)\<rparr>
                              else m0 k
                          | None \<Rightarrow> m0 k))"
  using assms
proof (induction xs arbitrary: P m0)
  case Nil
  then show ?case by simp
next
  case (Cons a xs)
  obtain ka va where a: "a = (ka, va)" by (cases a)
  from Cons.prems a have notin: "map_of xs ka = None" and dist: "distinct (map fst xs)"
    by (auto simp: map_of_eq_None_iff)
  let ?P' = "currency_update_step st a P"
  let ?m1 = "if map_of st ka = None
             then m0(ka \<mapsto> \<lparr>ccop_AmountOff = ValueInt64Pointer (ccom_AmountOff va)\<rparr>) else m0"
  have P': "cp_CurrencyOptions ?P' = Some ?m1"
    using Cons.prems(2) by (simp add: currency_update_step_def a)
  from Cons.IH [OF dist P'] obtain m where
    m: "cp_CurrencyOptions (fold (currency_update_step st) xs ?P') = Some m"
    and mk: "\<And>k. m k = (case map_of xs k of
                            Some v \<Rightarrow>
                              if map_of st k = None
                              then Some \<lparr>ccop_AmountOff = ValueInt64Pointer (ccom_AmountOff v)\<rparr>
                              else ?m1 k
                          | None \<Rightarrow> ?m1 k)"
    by blast
  have "m k = (case map_of (a # xs) k of
                 Some v \<Rightarrow>
                   if map_of st k = None
                   then Some \<lparr>ccop_AmountOff = ValueInt64Pointer (ccom_AmountOff v)\<rparr>
                   else m0 k
               | None \<Rightarrow> m0 k)" for k
    using notin by (cases "k = ka") (auto simp: mk a split: option.splits)
  then show ?case using m by simp
qed

text \<open>
  C4. The coupon's state and plan are models as the framework decodes them: their currency
  options carry the element type, and the update builder then returns. It never sets the
  top-level \<^verbatim>\<open>AmountOff\<close> and \<^verbatim>\<open>Currency\<close>. When the plan's currency options differ from
  the state's, the per-currency map of the parameters is made and holds exactly the plan's
  entries whose key the state lacks, each with the plan's amount: a key of the state has
  no entry, whether the plan kept it or dropped it, so nothing is cleared. The keys of a Go
  map are distinct.
\<close>

theorem coupon_update_adds_new_currency_options_only:
  "cm_CurrencyOptions state \<noteq> MapZero \<and> cm_CurrencyOptions plan \<noteq> MapZero
   \<longrightarrow> (\<exists>params. CouponResource_buildUpdateParams state plan = Some params
        \<and> cp_AmountOff params = None
        \<and> cp_Currency params = None
        \<and> (\<not> Map_Equal (cm_CurrencyOptions plan) (cm_CurrencyOptions state)
             \<and> distinct (map fst (Map_Elements (cm_CurrencyOptions plan)))
           \<longrightarrow> cp_CurrencyOptions params \<noteq> None
             \<and> (\<forall>(k, v) \<in> set (Map_Elements (cm_CurrencyOptions plan)).
                   k \<notin> fst ` set (Map_Elements (cm_CurrencyOptions state))
                   \<longrightarrow> entry (cp_CurrencyOptions params) k
                         = Some \<lparr>ccop_AmountOff = ValueInt64Pointer (ccom_AmountOff v)\<rparr>)
             \<and> (\<forall>k. k \<in> fst ` set (Map_Elements (cm_CurrencyOptions state))
                     \<or> k \<notin> fst ` set (Map_Elements (cm_CurrencyOptions plan))
                   \<longrightarrow> entry (cp_CurrencyOptions params) k = None)))"
proof (rule impI)
  assume t: "cm_CurrencyOptions state \<noteq> MapZero \<and> cm_CurrencyOptions plan \<noteq> MapZero"
  then have typed: "cm_CurrencyOptions state \<noteq> MapZero" "cm_CurrencyOptions plan \<noteq> MapZero"
    by simp_all
  let ?b = "the (CouponResource_buildUpdateParams state plan)"
  let ?st = "Map_Elements (cm_CurrencyOptions state)"
  let ?pl = "Map_Elements (cm_CurrencyOptions plan)"
  let ?out = "cp_CurrencyOptions ?b"
  have ret: "CouponResource_buildUpdateParams state plan = Some ?b"
    by (rule CouponResource_buildUpdateParams_returns [OF typed])
  have amt: "cp_AmountOff ?b = None"
    by (simp add: CouponResource_buildUpdateParams_fields [OF typed])
  have cur: "cp_Currency ?b = None"
    by (simp add: CouponResource_buildUpdateParams_fields [OF typed])
  have body: "\<not> Map_Equal (cm_CurrencyOptions plan) (cm_CurrencyOptions state)
             \<and> distinct (map fst ?pl)
           \<longrightarrow> ?out \<noteq> None
             \<and> (\<forall>(k, v) \<in> set ?pl. k \<notin> fst ` set ?st
                   \<longrightarrow> entry ?out k
                         = Some \<lparr>ccop_AmountOff = ValueInt64Pointer (ccom_AmountOff v)\<rparr>)
             \<and> (\<forall>k. k \<in> fst ` set ?st \<or> k \<notin> fst ` set ?pl \<longrightarrow> entry ?out k = None)"
  proof (intro conjI impI)
    assume a: "\<not> Map_Equal (cm_CurrencyOptions plan) (cm_CurrencyOptions state)
                 \<and> distinct (map fst ?pl)"
    have out: "?out = cp_CurrencyOptions (fold (currency_update_step ?st) ?pl
                        (CouponParams_zero\<lparr>cp_CurrencyOptions := Some Map.empty\<rparr>))"
      using a by (simp add: CouponResource_buildUpdateParams_fields [OF typed])
    have "cp_CurrencyOptions (CouponParams_zero\<lparr>cp_CurrencyOptions := Some Map.empty\<rparr>)
            = Some Map.empty"
      by simp
    from fold_currency_update_step_options [OF a [THEN conjunct2] this, of ?st]
    obtain m where m: "?out = Some m"
      and mk: "\<And>k. m k = (case map_of ?pl k of
                              Some v \<Rightarrow>
                                if map_of ?st k = None
                                then Some \<lparr>ccop_AmountOff = ValueInt64Pointer (ccom_AmountOff v)\<rparr>
                                else None
                            | None \<Rightarrow> None)"
      unfolding out by auto
    show "?out \<noteq> None" using m by simp
    show "\<forall>(k, v) \<in> set ?pl. k \<notin> fst ` set ?st
            \<longrightarrow> entry ?out k = Some \<lparr>ccop_AmountOff = ValueInt64Pointer (ccom_AmountOff v)\<rparr>"
    proof (clarify)
      fix k v
      assume kv: "(k, v) \<in> set ?pl" and notin: "k \<notin> fst ` set ?st"
      have "map_of ?pl k = Some v"
        using kv a by simp
      moreover have "map_of ?st k = None"
        using notin by (simp add: map_of_eq_None_iff)
      ultimately show "entry ?out k
                         = Some \<lparr>ccop_AmountOff = ValueInt64Pointer (ccom_AmountOff v)\<rparr>"
        by (simp add: m entry_Some mk)
    qed
    show "\<forall>k. k \<in> fst ` set ?st \<or> k \<notin> fst ` set ?pl \<longrightarrow> entry ?out k = None"
    proof (clarify)
      fix k
      assume k: "k \<in> fst ` set ?st \<or> k \<notin> fst ` set ?pl"
      have "map_of ?st k \<noteq> None \<or> map_of ?pl k = None"
        using k by (simp add: map_of_eq_None_iff)
      then show "entry ?out k = None"
        by (auto simp: m entry_Some mk split: option.splits)
    qed
  qed
  show "\<exists>params. CouponResource_buildUpdateParams state plan = Some params
        \<and> cp_AmountOff params = None
        \<and> cp_Currency params = None
        \<and> (\<not> Map_Equal (cm_CurrencyOptions plan) (cm_CurrencyOptions state)
             \<and> distinct (map fst ?pl)
           \<longrightarrow> cp_CurrencyOptions params \<noteq> None
             \<and> (\<forall>(k, v) \<in> set ?pl. k \<notin> fst ` set ?st
                   \<longrightarrow> entry (cp_CurrencyOptions params) k
                         = Some \<lparr>ccop_AmountOff = ValueInt64Pointer (ccom_AmountOff v)\<rparr>)
             \<and> (\<forall>k. k \<in> fst ` set ?st \<or> k \<notin> fst ` set ?pl
                   \<longrightarrow> entry (cp_CurrencyOptions params) k = None))"
    by (rule exI [of _ ?b]) (rule conjI [OF ret conjI [OF amt conjI [OF cur body]]])
qed

theorem coupon_update_adds_new_currency_options_only_witness:
  "\<exists>params. CouponResource_buildUpdateParams
      (CouponResourceModel_zero\<lparr>cm_CurrencyOptions :=
         MapValue (ObjectType CouponCurrencyOptionsModel_Types)
           [(''usd'', \<lparr>ccom_AmountOff = Int64Value 1000, ccom_TopLevel = BoolValue True\<rparr>)]\<rparr>)
      (CouponResourceModel_zero\<lparr>cm_CurrencyOptions :=
         MapValue (ObjectType CouponCurrencyOptionsModel_Types)
           [(''usd'', \<lparr>ccom_AmountOff = Int64Value 1000, ccom_TopLevel = BoolValue True\<rparr>),
            (''gbp'', \<lparr>ccom_AmountOff = Int64Value 1000, ccom_TopLevel = BoolValue False\<rparr>)]\<rparr>) = Some params
     \<and> cp_AmountOff params = None \<and> cp_Currency params = None
     \<and> entry (cp_CurrencyOptions params) ''gbp'' = Some \<lparr>ccop_AmountOff = Some 1000\<rparr>
     \<and> entry (cp_CurrencyOptions params) ''usd'' = None"
proof -
  let ?usd = "(''usd'', \<lparr>ccom_AmountOff = Int64Value 1000, ccom_TopLevel = BoolValue True\<rparr>)"
  let ?gbp = "(''gbp'', \<lparr>ccom_AmountOff = Int64Value 1000, ccom_TopLevel = BoolValue False\<rparr>)"
  let ?S = "CouponResourceModel_zero\<lparr>cm_CurrencyOptions :=
              MapValue (ObjectType CouponCurrencyOptionsModel_Types) [?usd]\<rparr>"
  let ?P = "CouponResourceModel_zero\<lparr>cm_CurrencyOptions :=
              MapValue (ObjectType CouponCurrencyOptionsModel_Types) [?usd, ?gbp]\<rparr>"
  have typed: "cm_CurrencyOptions ?S \<noteq> MapZero \<and> cm_CurrencyOptions ?P \<noteq> MapZero"
    by simp
  have differ: "\<not> Map_Equal (cm_CurrencyOptions ?P) (cm_CurrencyOptions ?S)
               \<and> distinct (map fst (Map_Elements (cm_CurrencyOptions ?P)))"
    by (simp add: entries_Equal_def)
  from coupon_update_adds_new_currency_options_only [of ?S ?P, THEN mp, OF typed]
  obtain params where ret: "CouponResource_buildUpdateParams ?S ?P = Some params"
    and top: "cp_AmountOff params = None" "cp_Currency params = None"
    and body: "\<not> Map_Equal (cm_CurrencyOptions ?P) (cm_CurrencyOptions ?S)
                 \<and> distinct (map fst (Map_Elements (cm_CurrencyOptions ?P)))
               \<longrightarrow> cp_CurrencyOptions params \<noteq> None
                 \<and> (\<forall>(k, v) \<in> set (Map_Elements (cm_CurrencyOptions ?P)).
                       k \<notin> fst ` set (Map_Elements (cm_CurrencyOptions ?S))
                       \<longrightarrow> entry (cp_CurrencyOptions params) k
                             = Some \<lparr>ccop_AmountOff = ValueInt64Pointer (ccom_AmountOff v)\<rparr>)
                 \<and> (\<forall>k. k \<in> fst ` set (Map_Elements (cm_CurrencyOptions ?S))
                         \<or> k \<notin> fst ` set (Map_Elements (cm_CurrencyOptions ?P))
                       \<longrightarrow> entry (cp_CurrencyOptions params) k = None)"
    by blast
  note r = body [THEN mp, OF differ, THEN conjunct2]
  have a: "entry (cp_CurrencyOptions params) ''gbp'' = Some \<lparr>ccop_AmountOff = Some 1000\<rparr>"
    using r [THEN conjunct1] by simp
  have b: "entry (cp_CurrencyOptions params) ''usd'' = None"
    using r [THEN conjunct2, THEN spec, of "''usd''"] by simp
  show ?thesis using ret top a b by blast
qed

text \<open>
  The example of the claim, computed: state \<open>usd\<close>, plan \<open>usd\<close> and \<open>gbp\<close> give the
  per-currency map with the one entry \<open>gbp\<close>. With a Go zero-value map on either side the
  builder panics instead.
\<close>

lemma coupon_update_currency_example:
  "map_option cp_CurrencyOptions (CouponResource_buildUpdateParams
      (CouponResourceModel_zero\<lparr>cm_CurrencyOptions :=
         MapValue (ObjectType CouponCurrencyOptionsModel_Types)
           [(''usd'', \<lparr>ccom_AmountOff = Int64Value 1000, ccom_TopLevel = BoolValue True\<rparr>)]\<rparr>)
      (CouponResourceModel_zero\<lparr>cm_CurrencyOptions :=
         MapValue (ObjectType CouponCurrencyOptionsModel_Types)
           [(''usd'', \<lparr>ccom_AmountOff = Int64Value 1000, ccom_TopLevel = BoolValue True\<rparr>),
            (''gbp'', \<lparr>ccom_AmountOff = Int64Value 1000, ccom_TopLevel = BoolValue False\<rparr>)]\<rparr>))
   = Some (Some [''gbp'' \<mapsto> \<lparr>ccop_AmountOff = Some 1000\<rparr>])"
  by (simp add: CouponResource_buildUpdateParams_def Let_def entries_Equal_def
      currency_update_step_def CouponParams_zero_def CouponResourceModel_zero_def)

lemma coupon_update_zero_value_panics:
  "CouponResource_buildUpdateParams CouponResourceModel_zero CouponResourceModel_zero = None"
  by (simp add: CouponResource_buildUpdateParams_panics CouponResourceModel_zero_def)

subsection \<open>Currency options in the coupon create\<close>

lemma fold_currency_create_step_options:
  assumes "distinct (map fst xs)" and "cp_CurrencyOptions P = Some m0"
  shows "\<exists>m. cp_CurrencyOptions (fold currency_create_step xs P) = Some m
           \<and> (\<forall>k. m k = (case map_of xs k of
                            Some e \<Rightarrow>
                              if ValueBool (ccom_TopLevel e) then m0 k
                              else Some \<lparr>ccop_AmountOff = ValueInt64Pointer (ccom_AmountOff e)\<rparr>
                          | None \<Rightarrow> m0 k))"
  using assms
proof (induction xs arbitrary: P m0)
  case Nil
  then show ?case by simp
next
  case (Cons a xs)
  obtain ka ea where a: "a = (ka, ea)" by (cases a)
  from Cons.prems a have notin: "map_of xs ka = None" and dist: "distinct (map fst xs)"
    by (auto simp: map_of_eq_None_iff)
  let ?P' = "currency_create_step a P"
  let ?m1 = "if ValueBool (ccom_TopLevel ea) then m0
             else m0(ka \<mapsto> \<lparr>ccop_AmountOff = ValueInt64Pointer (ccom_AmountOff ea)\<rparr>)"
  have P': "cp_CurrencyOptions ?P' = Some ?m1"
    using Cons.prems(2) by (simp add: currency_create_step_def a)
  from Cons.IH [OF dist P'] obtain m where
    m: "cp_CurrencyOptions (fold currency_create_step xs ?P') = Some m"
    and mk: "\<And>k. m k = (case map_of xs k of
                            Some e \<Rightarrow>
                              if ValueBool (ccom_TopLevel e) then ?m1 k
                              else Some \<lparr>ccop_AmountOff = ValueInt64Pointer (ccom_AmountOff e)\<rparr>
                          | None \<Rightarrow> ?m1 k)"
    by blast
  have "m k = (case map_of (a # xs) k of
                 Some e \<Rightarrow>
                   if ValueBool (ccom_TopLevel e) then m0 k
                   else Some \<lparr>ccop_AmountOff = ValueInt64Pointer (ccom_AmountOff e)\<rparr>
               | None \<Rightarrow> m0 k)" for k
    using notin by (cases "k = ka") (auto simp: mk a split: option.splits)
  then show ?case using m by simp
qed

lemma fold_currency_create_step_no_top_level:
  assumes "\<forall>(k, e) \<in> set xs. \<not> ValueBool (ccom_TopLevel e)"
  shows "cp_AmountOff (fold currency_create_step xs P) = cp_AmountOff P
       \<and> cp_Currency (fold currency_create_step xs P) = cp_Currency P"
  using assms
  by (induction xs arbitrary: P) (auto simp: currency_create_step_def)

lemma fold_currency_create_step_top_level:
  assumes "distinct (map fst xs)" and "(k, e) \<in> set xs" and "ValueBool (ccom_TopLevel e)"
    and "\<forall>(k', e') \<in> set xs. ValueBool (ccom_TopLevel e') \<longrightarrow> k' = k"
  shows "cp_AmountOff (fold currency_create_step xs P) = ValueInt64Pointer (ccom_AmountOff e)
       \<and> cp_Currency (fold currency_create_step xs P) = Some k"
  using assms
proof (induction xs arbitrary: P)
  case Nil
  then show ?case by simp
next
  case (Cons a xs)
  obtain ka ea where a: "a = (ka, ea)" by (cases a)
  from Cons.prems(1) a have notin: "ka \<notin> fst ` set xs" and dist: "distinct (map fst xs)"
    by auto
  show ?case
  proof (cases "(k, e) = a")
    case True
    then have ke: "ka = k" "ea = e" using a by auto
    have rest: "\<forall>(k', e') \<in> set xs. \<not> ValueBool (ccom_TopLevel e')"
    proof (clarify)
      fix k' e'
      assume in_xs: "(k', e') \<in> set xs" and top: "ValueBool (ccom_TopLevel e')"
      from Cons.prems(4) in_xs top have "k' = k" by auto
      with in_xs have "k \<in> fst ` set xs" by force
      with notin ke show False by simp
    qed
    have "cp_AmountOff (currency_create_step a P) = ValueInt64Pointer (ccom_AmountOff e)"
      "cp_Currency (currency_create_step a P) = Some k"
      using Cons.prems(3) by (simp_all add: currency_create_step_def a ke)
    then show ?thesis
      using fold_currency_create_step_no_top_level [OF rest, of "currency_create_step a P"]
      by simp
  next
    case False
    with Cons.prems(2) have in_xs: "(k, e) \<in> set xs" by simp
    have uniq: "\<forall>(k', e') \<in> set xs. ValueBool (ccom_TopLevel e') \<longrightarrow> k' = k"
      using Cons.prems(4) by auto
    show ?thesis
      using Cons.IH [OF dist in_xs Cons.prems(3) uniq, of "currency_create_step a P"]
      by simp
  qed
qed

text \<open>
  The three fields the currency loop writes, read off the create builder: they are those
  of the loop run on params whose top-level fields are nil and whose per-currency map is
  empty.
\<close>

lemma CouponResource_buildCreateParams_currency_fields:
  "\<exists>P. cp_AmountOff P = None \<and> cp_Currency P = None \<and> cp_CurrencyOptions P = Some Map.empty
     \<and> cp_AmountOff (CouponResource_buildCreateParams data) =
         (if \<not> Map_IsUnknown (cm_CurrencyOptions data) \<and> \<not> Map_IsNull (cm_CurrencyOptions data)
          then cp_AmountOff (fold currency_create_step (Map_Elements (cm_CurrencyOptions data)) P)
          else None)
     \<and> cp_Currency (CouponResource_buildCreateParams data) =
         (if \<not> Map_IsUnknown (cm_CurrencyOptions data) \<and> \<not> Map_IsNull (cm_CurrencyOptions data)
          then cp_Currency (fold currency_create_step (Map_Elements (cm_CurrencyOptions data)) P)
          else None)
     \<and> cp_CurrencyOptions (CouponResource_buildCreateParams data) =
         (if \<not> Map_IsUnknown (cm_CurrencyOptions data) \<and> \<not> Map_IsNull (cm_CurrencyOptions data)
          then cp_CurrencyOptions
                 (fold currency_create_step (Map_Elements (cm_CurrencyOptions data)) P)
          else None)"
proof -
  let ?P = "(let params = CouponParams_zero;
                 params = (if \<not> String_IsNull (cm_Id data) \<and> \<not> String_IsUnknown (cm_Id data)
                           then params\<lparr>cp_ID := ValueStringPointer (cm_Id data)\<rparr> else params);
                 params = (if \<not> List_IsUnknown (cm_AppliesTo data)
                              \<and> \<not> List_IsNull (cm_AppliesTo data)
                           then params\<lparr>cp_AppliesTo :=
                                  Some (map ValueStringPointer (List_Elements (cm_AppliesTo data)))\<rparr>
                           else params)
             in params\<lparr>cp_CurrencyOptions := Some Map.empty\<rparr>)"
  have p1: "cp_AmountOff ?P = None" "cp_Currency ?P = None"
    "cp_CurrencyOptions ?P = Some Map.empty"
    by (simp_all add: Let_def CouponParams_zero_def)
  have a: "cp_AmountOff (CouponResource_buildCreateParams data) =
         (if \<not> Map_IsUnknown (cm_CurrencyOptions data) \<and> \<not> Map_IsNull (cm_CurrencyOptions data)
          then cp_AmountOff (fold currency_create_step (Map_Elements (cm_CurrencyOptions data)) ?P)
          else None)"
    unfolding CouponResource_buildCreateParams_def
    by (simp only: sel_Let [of cp_AmountOff])
      (simp add: Let_def if_distrib [of cp_AmountOff] CouponParams_zero_def
        Map_ElementsAs_guarded cong: if_cong)
  have b: "cp_Currency (CouponResource_buildCreateParams data) =
         (if \<not> Map_IsUnknown (cm_CurrencyOptions data) \<and> \<not> Map_IsNull (cm_CurrencyOptions data)
          then cp_Currency (fold currency_create_step (Map_Elements (cm_CurrencyOptions data)) ?P)
          else None)"
    unfolding CouponResource_buildCreateParams_def
    by (simp only: sel_Let [of cp_Currency])
      (simp add: Let_def if_distrib [of cp_Currency] CouponParams_zero_def
        Map_ElementsAs_guarded cong: if_cong)
  have c: "cp_CurrencyOptions (CouponResource_buildCreateParams data) =
         (if \<not> Map_IsUnknown (cm_CurrencyOptions data) \<and> \<not> Map_IsNull (cm_CurrencyOptions data)
          then cp_CurrencyOptions
                 (fold currency_create_step (Map_Elements (cm_CurrencyOptions data)) ?P)
          else None)"
    unfolding CouponResource_buildCreateParams_def
    by (simp only: sel_Let [of cp_CurrencyOptions])
      (simp add: Let_def if_distrib [of cp_CurrencyOptions] CouponParams_zero_def
        Map_ElementsAs_guarded cong: if_cong)
  show ?thesis
    by (rule exI [of _ ?P]) (simp only: p1 a b c simp_thms)
qed

text \<open>
  C5, as stated, fails. The claim routes each entry marked \<open>top_level = true\<close> to the
  top-level \<^verbatim>\<open>AmountOff\<close> and \<^verbatim>\<open>Currency\<close>. The params struct has one such pair, the schema
  does not limit the marked entries to one, and the loop overwrites the pair at every
  marked entry: with \<open>usd\<close> and \<open>gbp\<close> both marked, the entry visited first appears neither
  in the top-level fields nor in the per-currency map, in either order of the loop.
\<close>

theorem coupon_create_two_top_level_counterexample:
  "cp_Currency (CouponResource_buildCreateParams
      (CouponResourceModel_zero\<lparr>cm_CurrencyOptions :=
         MapValue (ObjectType CouponCurrencyOptionsModel_Types)
           [(''usd'', \<lparr>ccom_AmountOff = Int64Value 1000, ccom_TopLevel = BoolValue True\<rparr>),
            (''gbp'', \<lparr>ccom_AmountOff = Int64Value 500, ccom_TopLevel = BoolValue True\<rparr>)]\<rparr>))
     = Some ''gbp''
   \<and> cp_AmountOff (CouponResource_buildCreateParams
      (CouponResourceModel_zero\<lparr>cm_CurrencyOptions :=
         MapValue (ObjectType CouponCurrencyOptionsModel_Types)
           [(''usd'', \<lparr>ccom_AmountOff = Int64Value 1000, ccom_TopLevel = BoolValue True\<rparr>),
            (''gbp'', \<lparr>ccom_AmountOff = Int64Value 500, ccom_TopLevel = BoolValue True\<rparr>)]\<rparr>))
     = Some 500
   \<and> cp_CurrencyOptions (CouponResource_buildCreateParams
      (CouponResourceModel_zero\<lparr>cm_CurrencyOptions :=
         MapValue (ObjectType CouponCurrencyOptionsModel_Types)
           [(''usd'', \<lparr>ccom_AmountOff = Int64Value 1000, ccom_TopLevel = BoolValue True\<rparr>),
            (''gbp'', \<lparr>ccom_AmountOff = Int64Value 500, ccom_TopLevel = BoolValue True\<rparr>)]\<rparr>))
     = Some Map.empty
   \<and> cp_Currency (CouponResource_buildCreateParams
      (CouponResourceModel_zero\<lparr>cm_CurrencyOptions :=
         MapValue (ObjectType CouponCurrencyOptionsModel_Types)
           [(''gbp'', \<lparr>ccom_AmountOff = Int64Value 500, ccom_TopLevel = BoolValue True\<rparr>),
            (''usd'', \<lparr>ccom_AmountOff = Int64Value 1000, ccom_TopLevel = BoolValue True\<rparr>)]\<rparr>))
     = Some ''usd''
   \<and> cp_AmountOff (CouponResource_buildCreateParams
      (CouponResourceModel_zero\<lparr>cm_CurrencyOptions :=
         MapValue (ObjectType CouponCurrencyOptionsModel_Types)
           [(''gbp'', \<lparr>ccom_AmountOff = Int64Value 500, ccom_TopLevel = BoolValue True\<rparr>),
            (''usd'', \<lparr>ccom_AmountOff = Int64Value 1000, ccom_TopLevel = BoolValue True\<rparr>)]\<rparr>))
     = Some 1000
   \<and> cp_CurrencyOptions (CouponResource_buildCreateParams
      (CouponResourceModel_zero\<lparr>cm_CurrencyOptions :=
         MapValue (ObjectType CouponCurrencyOptionsModel_Types)
           [(''gbp'', \<lparr>ccom_AmountOff = Int64Value 500, ccom_TopLevel = BoolValue True\<rparr>),
            (''usd'', \<lparr>ccom_AmountOff = Int64Value 1000, ccom_TopLevel = BoolValue True\<rparr>)]\<rparr>))
     = Some Map.empty"
  by (simp add: CouponResource_buildCreateParams_def CouponResourceModel_zero_def
      CouponParams_zero_def currency_create_step_def add_plan_metadata_def)

text \<open>
  C5, amended. For every coupon plan whose currency options are present (neither null nor
  unknown) and hold at most one entry with \<open>top_level = true\<close>, the create builder routes
  that entry to the top-level \<^verbatim>\<open>AmountOff\<close> and \<^verbatim>\<open>Currency\<close> (\<^verbatim>\<open>Currency\<close> is its key) and keeps
  it out of the per-currency map; every other entry goes into the per-currency map with its
  amount; the map holds nothing else; without a marked entry the top-level fields stay
  nil. The keys of a Go map are distinct.
\<close>

theorem coupon_create_routes_top_level_entry:
  "\<not> Map_IsUnknown (cm_CurrencyOptions data) \<and> \<not> Map_IsNull (cm_CurrencyOptions data)
   \<and> distinct (map fst (Map_Elements (cm_CurrencyOptions data)))
   \<and> (\<forall>(k, e) \<in> set (Map_Elements (cm_CurrencyOptions data)).
        \<forall>(k', e') \<in> set (Map_Elements (cm_CurrencyOptions data)).
          ValueBool (ccom_TopLevel e) \<and> ValueBool (ccom_TopLevel e') \<longrightarrow> k' = k)
   \<longrightarrow>
     (\<forall>(k, e) \<in> set (Map_Elements (cm_CurrencyOptions data)).
        ValueBool (ccom_TopLevel e)
        \<longrightarrow> cp_AmountOff (CouponResource_buildCreateParams data)
              = ValueInt64Pointer (ccom_AmountOff e)
          \<and> cp_Currency (CouponResource_buildCreateParams data) = Some k
          \<and> entry (cp_CurrencyOptions (CouponResource_buildCreateParams data)) k = None)
   \<and> (\<forall>(k, e) \<in> set (Map_Elements (cm_CurrencyOptions data)).
        \<not> ValueBool (ccom_TopLevel e)
        \<longrightarrow> entry (cp_CurrencyOptions (CouponResource_buildCreateParams data)) k
              = Some \<lparr>ccop_AmountOff = ValueInt64Pointer (ccom_AmountOff e)\<rparr>)
   \<and> (\<forall>k. k \<notin> fst ` set (Map_Elements (cm_CurrencyOptions data))
        \<longrightarrow> entry (cp_CurrencyOptions (CouponResource_buildCreateParams data)) k = None)
   \<and> cp_CurrencyOptions (CouponResource_buildCreateParams data) \<noteq> None
   \<and> ((\<forall>(k, e) \<in> set (Map_Elements (cm_CurrencyOptions data)). \<not> ValueBool (ccom_TopLevel e))
        \<longrightarrow> cp_AmountOff (CouponResource_buildCreateParams data) = None
          \<and> cp_Currency (CouponResource_buildCreateParams data) = None)"
proof (rule impI)
  let ?xs = "Map_Elements (cm_CurrencyOptions data)"
  let ?b = "CouponResource_buildCreateParams data"
  assume h: "\<not> Map_IsUnknown (cm_CurrencyOptions data) \<and> \<not> Map_IsNull (cm_CurrencyOptions data)
   \<and> distinct (map fst ?xs)
   \<and> (\<forall>(k, e) \<in> set ?xs. \<forall>(k', e') \<in> set ?xs.
          ValueBool (ccom_TopLevel e) \<and> ValueBool (ccom_TopLevel e') \<longrightarrow> k' = k)"
  then have present: "\<not> Map_IsUnknown (cm_CurrencyOptions data) \<and> \<not> Map_IsNull (cm_CurrencyOptions data)"
    and dist: "distinct (map fst ?xs)"
    and uniq: "\<forall>(k, e) \<in> set ?xs. \<forall>(k', e') \<in> set ?xs.
          ValueBool (ccom_TopLevel e) \<and> ValueBool (ccom_TopLevel e') \<longrightarrow> k' = k"
    by blast+
  from CouponResource_buildCreateParams_currency_fields [of data] present
  obtain P where P: "cp_AmountOff P = None" "cp_Currency P = None"
      "cp_CurrencyOptions P = Some Map.empty"
    and amt: "cp_AmountOff ?b = cp_AmountOff (fold currency_create_step ?xs P)"
    and cur: "cp_Currency ?b = cp_Currency (fold currency_create_step ?xs P)"
    and opt: "cp_CurrencyOptions ?b = cp_CurrencyOptions (fold currency_create_step ?xs P)"
    by auto
  from fold_currency_create_step_options [OF dist P(3)]
  obtain m where m: "cp_CurrencyOptions ?b = Some m"
    and mk: "\<And>k. m k = (case map_of ?xs k of
                            Some e \<Rightarrow>
                              if ValueBool (ccom_TopLevel e) then None
                              else Some \<lparr>ccop_AmountOff = ValueInt64Pointer (ccom_AmountOff e)\<rparr>
                          | None \<Rightarrow> None)"
    unfolding opt by auto
  have top: "cp_AmountOff ?b = ValueInt64Pointer (ccom_AmountOff e) \<and> cp_Currency ?b = Some k
               \<and> entry (cp_CurrencyOptions ?b) k = None"
    if ke: "(k, e) \<in> set ?xs" and t: "ValueBool (ccom_TopLevel e)" for k e
  proof -
    have u: "\<forall>(k', e') \<in> set ?xs. ValueBool (ccom_TopLevel e') \<longrightarrow> k' = k"
      using uniq ke t by blast
    have "map_of ?xs k = Some e" using ke dist by simp
    then have "entry (cp_CurrencyOptions ?b) k = None"
      using t by (simp add: m entry_Some mk)
    then show ?thesis
      using fold_currency_create_step_top_level [OF dist ke t u, of P] by (simp add: amt cur)
  qed
  have other: "entry (cp_CurrencyOptions ?b) k
                 = Some \<lparr>ccop_AmountOff = ValueInt64Pointer (ccom_AmountOff e)\<rparr>"
    if ke: "(k, e) \<in> set ?xs" and t: "\<not> ValueBool (ccom_TopLevel e)" for k e
  proof -
    have "map_of ?xs k = Some e" using ke dist by simp
    then show ?thesis using t by (simp add: m entry_Some mk)
  qed
  have absent: "entry (cp_CurrencyOptions ?b) k = None" if "k \<notin> fst ` set ?xs" for k
  proof -
    have "map_of ?xs k = None" using that by (simp add: map_of_eq_None_iff)
    then show ?thesis by (simp add: m entry_Some mk)
  qed
  have none: "cp_AmountOff ?b = None \<and> cp_Currency ?b = None"
    if "\<forall>(k, e) \<in> set ?xs. \<not> ValueBool (ccom_TopLevel e)"
    using fold_currency_create_step_no_top_level [OF that, of P] by (simp add: amt cur P)
  show "(\<forall>(k, e) \<in> set ?xs.
        ValueBool (ccom_TopLevel e)
        \<longrightarrow> cp_AmountOff ?b = ValueInt64Pointer (ccom_AmountOff e)
          \<and> cp_Currency ?b = Some k
          \<and> entry (cp_CurrencyOptions ?b) k = None)
   \<and> (\<forall>(k, e) \<in> set ?xs.
        \<not> ValueBool (ccom_TopLevel e)
        \<longrightarrow> entry (cp_CurrencyOptions ?b) k
              = Some \<lparr>ccop_AmountOff = ValueInt64Pointer (ccom_AmountOff e)\<rparr>)
   \<and> (\<forall>k. k \<notin> fst ` set ?xs \<longrightarrow> entry (cp_CurrencyOptions ?b) k = None)
   \<and> cp_CurrencyOptions ?b \<noteq> None
   \<and> ((\<forall>(k, e) \<in> set ?xs. \<not> ValueBool (ccom_TopLevel e))
        \<longrightarrow> cp_AmountOff ?b = None \<and> cp_Currency ?b = None)"
    using top other absent none m by (intro conjI) auto
qed

theorem coupon_create_routes_top_level_entry_witness:
  "cp_AmountOff (CouponResource_buildCreateParams
      (CouponResourceModel_zero\<lparr>cm_CurrencyOptions :=
         MapValue (ObjectType CouponCurrencyOptionsModel_Types)
           [(''usd'', \<lparr>ccom_AmountOff = Int64Value 1000, ccom_TopLevel = BoolValue True\<rparr>),
            (''gbp'', \<lparr>ccom_AmountOff = Int64Value 800, ccom_TopLevel = BoolValue False\<rparr>)]\<rparr>))
     = Some 1000
   \<and> cp_Currency (CouponResource_buildCreateParams
      (CouponResourceModel_zero\<lparr>cm_CurrencyOptions :=
         MapValue (ObjectType CouponCurrencyOptionsModel_Types)
           [(''usd'', \<lparr>ccom_AmountOff = Int64Value 1000, ccom_TopLevel = BoolValue True\<rparr>),
            (''gbp'', \<lparr>ccom_AmountOff = Int64Value 800, ccom_TopLevel = BoolValue False\<rparr>)]\<rparr>))
     = Some ''usd''
   \<and> entry (cp_CurrencyOptions (CouponResource_buildCreateParams
      (CouponResourceModel_zero\<lparr>cm_CurrencyOptions :=
         MapValue (ObjectType CouponCurrencyOptionsModel_Types)
           [(''usd'', \<lparr>ccom_AmountOff = Int64Value 1000, ccom_TopLevel = BoolValue True\<rparr>),
            (''gbp'', \<lparr>ccom_AmountOff = Int64Value 800, ccom_TopLevel = BoolValue False\<rparr>)]\<rparr>)))
       ''usd'' = None
   \<and> entry (cp_CurrencyOptions (CouponResource_buildCreateParams
      (CouponResourceModel_zero\<lparr>cm_CurrencyOptions :=
         MapValue (ObjectType CouponCurrencyOptionsModel_Types)
           [(''usd'', \<lparr>ccom_AmountOff = Int64Value 1000, ccom_TopLevel = BoolValue True\<rparr>),
            (''gbp'', \<lparr>ccom_AmountOff = Int64Value 800, ccom_TopLevel = BoolValue False\<rparr>)]\<rparr>)))
       ''gbp'' = Some \<lparr>ccop_AmountOff = Some 800\<rparr>"
proof -
  let ?usd = "(''usd'', \<lparr>ccom_AmountOff = Int64Value 1000, ccom_TopLevel = BoolValue True\<rparr>)"
  let ?gbp = "(''gbp'', \<lparr>ccom_AmountOff = Int64Value 800, ccom_TopLevel = BoolValue False\<rparr>)"
  let ?D = "CouponResourceModel_zero\<lparr>cm_CurrencyOptions :=
              MapValue (ObjectType CouponCurrencyOptionsModel_Types) [?usd, ?gbp]\<rparr>"
  have hyp: "\<not> Map_IsUnknown (cm_CurrencyOptions ?D) \<and> \<not> Map_IsNull (cm_CurrencyOptions ?D)
     \<and> distinct (map fst (Map_Elements (cm_CurrencyOptions ?D)))
     \<and> (\<forall>(k, e) \<in> set (Map_Elements (cm_CurrencyOptions ?D)).
          \<forall>(k', e') \<in> set (Map_Elements (cm_CurrencyOptions ?D)).
            ValueBool (ccom_TopLevel e) \<and> ValueBool (ccom_TopLevel e') \<longrightarrow> k' = k)"
    by simp
  note r = coupon_create_routes_top_level_entry [of ?D, THEN mp, OF hyp]
  have a: "cp_AmountOff (CouponResource_buildCreateParams ?D) = Some 1000
             \<and> cp_Currency (CouponResource_buildCreateParams ?D) = Some ''usd''
             \<and> entry (cp_CurrencyOptions (CouponResource_buildCreateParams ?D)) ''usd'' = None"
    using r [THEN conjunct1] by simp
  have b: "entry (cp_CurrencyOptions (CouponResource_buildCreateParams ?D)) ''gbp''
             = Some \<lparr>ccop_AmountOff = Some 800\<rparr>"
    using r [THEN conjunct2, THEN conjunct1] by simp
  show ?thesis using a b by simp
qed

text \<open>
  The example of the claim, computed: the single entry \<open>usd\<close> with amount 1000 and
  \<open>top_level = true\<close> gives \<^verbatim>\<open>AmountOff = 1000\<close>, \<^verbatim>\<open>Currency = "usd"\<close> and an empty
  per-currency map.
\<close>

lemma coupon_create_currency_example:
  "cp_AmountOff (CouponResource_buildCreateParams
      (CouponResourceModel_zero\<lparr>cm_CurrencyOptions :=
         MapValue (ObjectType CouponCurrencyOptionsModel_Types)
           [(''usd'', \<lparr>ccom_AmountOff = Int64Value 1000, ccom_TopLevel = BoolValue True\<rparr>)]\<rparr>))
     = Some 1000
   \<and> cp_Currency (CouponResource_buildCreateParams
      (CouponResourceModel_zero\<lparr>cm_CurrencyOptions :=
         MapValue (ObjectType CouponCurrencyOptionsModel_Types)
           [(''usd'', \<lparr>ccom_AmountOff = Int64Value 1000, ccom_TopLevel = BoolValue True\<rparr>)]\<rparr>))
     = Some ''usd''
   \<and> cp_CurrencyOptions (CouponResource_buildCreateParams
      (CouponResourceModel_zero\<lparr>cm_CurrencyOptions :=
         MapValue (ObjectType CouponCurrencyOptionsModel_Types)
           [(''usd'', \<lparr>ccom_AmountOff = Int64Value 1000, ccom_TopLevel = BoolValue True\<rparr>)]\<rparr>))
     = Some Map.empty"
  by (simp add: CouponResource_buildCreateParams_def CouponResourceModel_zero_def
      CouponParams_zero_def currency_create_step_def add_plan_metadata_def)

subsection \<open>Populate and the diagnostics of the invocation\<close>

text \<open>
  What create does once the plan was read without error and the client returned the remote
  object: the diagnostics of the invocation are those before the call to populate, and the
  populated model is stored. The diagnostics populate appended went to its own copy of the
  slice. The product handler tests the invocation's diagnostics after populate; they
  cannot have changed, so the test never stops it.
\<close>

lemma CouponResource_Create_stores:
  assumes "\<not> HasError (Append (rs_Diagnostics resp) (fst req_Plan_Get))"
    and "Coupons_New sc
           (AddExpand (CouponResource_buildCreateParams (snd req_Plan_Get)) ''currency_options'')
         = Inr coupon"
  shows "fst (CouponResource_Create fw sc req_Plan_Get resp) =
           resp\<lparr>rs_Diagnostics := Append (rs_Diagnostics resp) (fst req_Plan_Get),
                rs_State := Some (fst (CouponResource_populateModel fw
                   ((snd req_Plan_Get)\<lparr>cm_Id := StringValue (c_ID coupon)\<rparr>) coupon
                   (Append (rs_Diagnostics resp) (fst req_Plan_Get))))\<rparr>"
  using assms
  by (simp add: CouponResource_Create_def Let_def case_prod_beta State_Set_def
      del: Append.simps)

lemma ProductResource_Create_stores:
  assumes "\<not> HasError (Append (rs_Diagnostics resp) (fst req_Plan_Get))"
    and "Products_New sc (ProductResource_buildCreateParams (snd req_Plan_Get)) = Inr product"
  shows "fst (ProductResource_Create fw sc req_Plan_Get resp) =
           resp\<lparr>rs_Diagnostics := Append (rs_Diagnostics resp) (fst req_Plan_Get),
                rs_State := Some (fst (ProductResource_populateModel fw
                   ((snd req_Plan_Get)\<lparr>pm_Id := StringValue (p_ID product)\<rparr>) product
                   (Append (rs_Diagnostics resp) (fst req_Plan_Get))))\<rparr>"
  using assms
  by (simp add: ProductResource_Create_def Let_def case_prod_beta State_Set_def
      del: Append.simps)

text \<open>
  The conversions populate asks for are of Go strings, slices and maps of strings and of
  the provider's own model structs. On such data the framework reports nothing, which is
  \<open>fw_ok\<close>, and populate hands back the diagnostics it was given: the branches that append
  a conversion error are taken by no run of the handlers.
\<close>

lemma populateModel_reports_nothing:
  "snd (WebhookEndpointResource_populateModel fw_ok wm we d) = d"
  "snd (ProductResource_populateModel fw_ok pm p d) = d"
  "snd (CouponResource_populateModel fw_ok cm c d) = d"
  by (simp_all add: WebhookEndpointResource_populateModel_def ProductResource_populateModel_def
      CouponResource_populateModel_def Let_def case_prod_beta snd_ListValueFrom snd_MapValueFrom
      snd_MapValueFrom_currency snd_ObjectValueFrom fw_ok_def HasError_def
      split: option.splits)

end
